theory Spec2Isabelle
  imports Main "HOL-Library.Sublist"
begin

section \<open>Python values\<close>

text \<open>
  A Python \<open>str\<close> is a \<open>string\<close>; a \<open>char\<close> stands for the code point of the same
  number (0 to 255).

  A raised exception is kept as the name of its class and the names of the classes it
  inherits from; \<open>except C as e\<close> catches it when \<open>isinstance e C\<close>, and
  \<open>e.__class__.__name__\<close> is \<open>class_name e\<close>.
\<close>

datatype exc = Exc (class_name: string) (bases: "string list")

definition isinstance :: "exc \<Rightarrow> string \<Rightarrow> bool" where
  "isinstance e c = (c \<in> set (class_name e # bases e))"

text \<open>
  What a call does: it returns a value or raises. \<open>Unmodelled\<close> is the third answer of
  the library model of this theory where the library leaves what is modelled here (the
  decoding of UTF-8, the parsing of IP addresses, the limits of \<open>int\<close>); it is passed on
  like an uncaught exception, and no statement is made about a run that meets it.
\<close>

datatype 'a outcome = Return 'a | Raise exc | Unmodelled

fun and_then :: "'a outcome \<Rightarrow> ('a \<Rightarrow> 'b outcome) \<Rightarrow> 'b outcome" where
  "and_then (Return x) f = f x"
| "and_then (Raise e) f = Raise e"
| "and_then Unmodelled f = Unmodelled"

subsection \<open>Methods of str\<close>

text \<open>\<open>c.isspace()\<close> for the code points below 256.\<close>

definition isspace :: "char \<Rightarrow> bool" where
  "isspace c = (c \<in> set [CHR 0x09, CHR 0x0A, CHR 0x0B, CHR 0x0C, CHR 0x0D,
                          CHR 0x1C, CHR 0x1D, CHR 0x1E, CHR 0x1F, CHR 0x20,
                          CHR 0x85, CHR 0xA0])"

text \<open>
  \<open>s.lstrip(chars)\<close>, \<open>s.rstrip(chars)\<close> and \<open>s.strip(chars)\<close>, the set of characters
  given as a predicate; \<open>s.strip()\<close> is \<open>strip isspace s\<close>.
\<close>

definition lstrip :: "(char \<Rightarrow> bool) \<Rightarrow> string \<Rightarrow> string" where
  "lstrip P s = dropWhile P s"

definition rstrip :: "(char \<Rightarrow> bool) \<Rightarrow> string \<Rightarrow> string" where
  "rstrip P s = rev (dropWhile P (rev s))"

definition strip :: "(char \<Rightarrow> bool) \<Rightarrow> string \<Rightarrow> string" where
  "strip P s = rstrip P (lstrip P s)"

text \<open>
  \<open>s.splitlines()\<close>: a line ends at \<open>\n\<close>, \<open>\r\<close>, \<open>\r\n\<close>, \<open>\v\<close>, \<open>\f\<close>,
  \<open>\x1c\<close>, \<open>\x1d\<close>, \<open>\x1e\<close> or \<open>\x85\<close>; the line ends are dropped, and no empty last
  line is produced after the final line end.
\<close>

definition is_linebreak :: "char \<Rightarrow> bool" where
  "is_linebreak c = (c \<in> set [CHR 0x0A, CHR 0x0B, CHR 0x0C, CHR 0x0D,
                               CHR 0x1C, CHR 0x1D, CHR 0x1E, CHR 0x85])"

fun splitlines_from :: "string \<Rightarrow> string \<Rightarrow> string list" where
  "splitlines_from cur [] = (if cur = [] then [] else [cur])"
| "splitlines_from cur (c # s) =
     (if c = CHR 0x0D \<and> s \<noteq> [] \<and> hd s = CHR 0x0A then cur # splitlines_from [] (tl s)
      else if is_linebreak c then cur # splitlines_from [] s
      else splitlines_from (cur @ [c]) s)"

definition splitlines :: "string \<Rightarrow> string list" where
  "splitlines s = splitlines_from [] s"

section \<open>The data model of app.py\<close>

record BotResult =
  userAgent :: string
  canFetchRoot :: bool
  canFetchSitewide :: bool
  "notes" :: "string option"

record CheckResponse =
  robotsTxtFound :: bool
  robotsUrl :: string
  statusCode :: "int option"
  blockedBots :: "string list"
  results :: "BotResult list"
  robotsTxt :: "string option"
  warnings :: "string list"

definition DEFAULT_AI_BOTS :: "string list" where
  "DEFAULT_AI_BOTS =
     [''GPTBot'', ''PerplexityBot'', ''ClaudeBot'', ''CCBot'', ''Google-Extended'', ''Amazonbot'']"

section \<open>What app.py imports\<close>

text \<open>
  The six components of \<open>urllib.parse.ParseResult\<close>, and the two attributes of a
  \<open>requests.Response\<close> that the handler reads (\<open>r.status_code\<close> and \<open>r.text\<close>).
\<close>

record ParseResult =
  scheme :: string
  netloc :: string
  path :: string
  params :: string
  query :: string
  fragment :: string

record Response =
  status_code :: int
  resp_text :: string

text \<open>
  The names that app.py imports and calls: \<open>urlparse\<close> and \<open>urlunparse\<close> of
  \<open>urllib.parse\<close>, \<open>requests.get\<close> (the network), and the class
  \<open>urllib.robotparser.RobotFileParser\<close> with its constructor and the three methods
  used, over the parser object \<open>'rp\<close>. \<open>parse\<close> changes the parser object also when it
  raises, so it gives back the object together with how it ended.

  The handler is written over any such library, and every statement about the handler
  that does not depend on what the library computes is proved for all of them.
\<close>

record 'rp pylib =
  urlparse :: "string \<Rightarrow> ParseResult outcome"
  urlunparse :: "ParseResult \<Rightarrow> string outcome"
  requests_get :: "string \<Rightarrow> Response outcome"
  RobotFileParser :: "'rp outcome"
  set_url :: "'rp \<Rightarrow> string \<Rightarrow> 'rp outcome"
  parse :: "'rp \<Rightarrow> string list \<Rightarrow> 'rp \<times> unit outcome"
  can_fetch :: "'rp \<Rightarrow> string \<Rightarrow> string \<Rightarrow> bool outcome"

section \<open>app.py\<close>

text \<open>
  \<^verbatim>\<open>
  def normalize_to_origin(url: str) -> str:
      p = urlparse(url)
      scheme = p.scheme or "https"
      netloc = p.netloc or p.path  # allow 'example.com' input
      return urlunparse((scheme, netloc, "", "", "", ""))
  \<close>
\<close>

definition normalize_to_origin :: "'rp pylib \<Rightarrow> string \<Rightarrow> string outcome" where
  "normalize_to_origin py url =
     and_then (urlparse py url) (\<lambda>p.
       let scheme' = (if scheme p \<noteq> [] then scheme p else ''https'');
           netloc' = (if netloc p \<noteq> [] then netloc p else path p)
       in urlunparse py \<lparr>scheme = scheme', netloc = netloc', path = [], params = [],
                          query = [], fragment = []\<rparr>)"

text \<open>
  The loop \<open>for ua in bots\<close> of the handler, with the two lists it appends to. An
  exception of \<open>rp.can_fetch\<close> is not caught and ends the loop.
\<close>

fun for_ua_in_bots ::
  "'rp pylib \<Rightarrow> 'rp \<Rightarrow> string \<Rightarrow> string list \<Rightarrow> BotResult list \<times> string list
     \<Rightarrow> (BotResult list \<times> string list) outcome" where
  "for_ua_in_bots py rp origin [] (results', blocked) = Return (results', blocked)"
| "for_ua_in_bots py rp origin (ua # bots) (results', blocked) =
     and_then (can_fetch py rp ua (origin @ ''/'')) (\<lambda>can_root.
       let can_sitewide = can_root;
           blocked = (if \<not> can_root then blocked @ [ua] else blocked);
           results' = results' @ [\<lparr>userAgent = ua, canFetchRoot = can_root,
                                     canFetchSitewide = can_sitewide, notes = None\<rparr>]
       in for_ua_in_bots py rp origin bots (results', blocked))"

text \<open>
  The handler of \<open>GET /check\<close>.
  \<^verbatim>\<open>
      origin = normalize_to_origin(url).rstrip("/")
      robots_url = f"{origin}/robots.txt"
      warnings: List[str] = []

      try:
          r = requests.get(robots_url, timeout=8, allow_redirects=True)
          status = r.status_code
      except requests.RequestException as e:
          return CheckResponse(robotsTxtFound=False, robotsUrl=robots_url,
              statusCode=None, blockedBots=[], results=[], robotsTxt=None,
              warnings=[f"Fetch error: {e.__class__.__name__}"])

      if status != 200 or not r.text.strip():
          return CheckResponse(robotsTxtFound=False, robotsUrl=robots_url,
              statusCode=status, blockedBots=[], results=[], robotsTxt=None,
              warnings=warnings)

      txt = r.text
      rp = robotparser.RobotFileParser()
      rp.set_url(robots_url)
      try:
          rp.parse(txt.splitlines())
      except Exception as e:
          warnings.append(f"Parse warning: {e.__class__.__name__}")

      results: List[BotResult] = []
      blocked: List[str] = []

      for ua in bots:
          can_root = bool(rp.can_fetch(ua, origin + "/"))
          can_sitewide = can_root
          if not can_root:
              blocked.append(ua)
          results.append(BotResult(userAgent=ua, canFetchRoot=can_root,
              canFetchSitewide=can_sitewide, notes=None))

      return CheckResponse(robotsTxtFound=True, robotsUrl=robots_url,
          statusCode=status, blockedBots=blocked, results=results,
          robotsTxt=txt if includeRobotsTxt else None, warnings=warnings)
  \<close>
  The first \<open>try\<close> catches \<open>requests.RequestException\<close> only, the second one every
  \<open>Exception\<close>; whatever else is raised leaves the handler. The timeout and the
  redirects are the network's business: \<open>requests_get\<close> says how the request ended.
\<close>

definition check_ai_bot_block ::
  "'rp pylib \<Rightarrow> string \<Rightarrow> string list \<Rightarrow> bool \<Rightarrow> CheckResponse outcome" where
  "check_ai_bot_block py url bots includeRobotsTxt =
     and_then (normalize_to_origin py url) (\<lambda>normalized.
       let origin = rstrip (\<lambda>c. c = CHR ''/'') normalized;
           robots_url = origin @ ''/robots.txt'';
           warnings' = []
       in case requests_get py robots_url of
            Raise e \<Rightarrow>
              if isinstance e ''RequestException''
              then Return \<lparr>robotsTxtFound = False, robotsUrl = robots_url, statusCode = None,
                            blockedBots = [], results = [], robotsTxt = None,
                            warnings = [''Fetch error: '' @ class_name e]\<rparr>
              else Raise e
          | Unmodelled \<Rightarrow> Unmodelled
          | Return r \<Rightarrow>
              let status = status_code r in
              if status \<noteq> 200 \<or> strip isspace (resp_text r) = []
              then Return \<lparr>robotsTxtFound = False, robotsUrl = robots_url,
                            statusCode = Some status, blockedBots = [], results = [],
                            robotsTxt = None, warnings = warnings'\<rparr>
              else
                let txt = resp_text r in
                and_then (RobotFileParser py) (\<lambda>rp0.
                and_then (set_url py rp0 robots_url) (\<lambda>rp1.
                  case parse py rp1 (splitlines txt) of (rp, ended) \<Rightarrow>
                    and_then
                      (case ended of
                         Return _ \<Rightarrow> Return warnings'
                       | Raise e \<Rightarrow>
                           if isinstance e ''Exception''
                           then Return (warnings' @ [''Parse warning: '' @ class_name e])
                           else Raise e
                       | Unmodelled \<Rightarrow> Unmodelled)
                      (\<lambda>warnings'.
                    and_then (for_ua_in_bots py rp origin bots ([], []))
                      (\<lambda>(results', blocked).
                        Return \<lparr>robotsTxtFound = True, robotsUrl = robots_url,
                                 statusCode = Some status, blockedBots = blocked,
                                 results = results',
                                 robotsTxt = (if includeRobotsTxt then Some txt else None),
                                 warnings = warnings'\<rparr>)))))"

text \<open>
  The query parameters of the route: \<open>bots\<close> and \<open>includeRobotsTxt\<close> may be absent from
  the request, and then have the defaults of the signature, \<open>DEFAULT_AI_BOTS\<close> and
  \<open>True\<close>.
\<close>

definition check_endpoint ::
  "'rp pylib \<Rightarrow> string \<Rightarrow> string list option \<Rightarrow> bool option \<Rightarrow> CheckResponse outcome" where
  "check_endpoint py url bots includeRobotsTxt =
     check_ai_bot_block py url
       (case bots of None \<Rightarrow> DEFAULT_AI_BOTS | Some bs \<Rightarrow> bs)
       (case includeRobotsTxt of None \<Rightarrow> True | Some b \<Rightarrow> b)"

section \<open>The library, as CPython 3.11 has it\<close>

text \<open>
  A model of the functions of \<open>urllib.parse\<close> and \<open>urllib.robotparser\<close> (CPython 3.11,
  \<open>Lib/urllib/parse.py\<close> and \<open>Lib/urllib/robotparser.py\<close>) that the handler reaches, on
  \<open>str\<close> arguments. It is used where a statement depends on what the library computes,
  and to run the handler on concrete requests.
\<close>

definition ValueError :: exc where
  "ValueError = Exc ''ValueError'' [''Exception'', ''BaseException'', ''object'']"

subsection \<open>More methods of str\<close>

text \<open>\<open>s.find(c)\<close>, \<open>s.find(c, start)\<close> and \<open>s.rfind(c)\<close> for one character \<open>c\<close>.\<close>

definition find :: "string \<Rightarrow> char \<Rightarrow> int" where
  "find s c = (if c \<in> set s then int (length (takeWhile (\<lambda>x. x \<noteq> c) s)) else - 1)"

definition find_from :: "string \<Rightarrow> char \<Rightarrow> nat \<Rightarrow> int" where
  "find_from s c start =
     (if c \<in> set (drop start s)
      then int (start + length (takeWhile (\<lambda>x. x \<noteq> c) (drop start s))) else - 1)"

definition rfind :: "string \<Rightarrow> char \<Rightarrow> int" where
  "rfind s c =
     (if c \<in> set s then int (length s - 1 - length (takeWhile (\<lambda>x. x \<noteq> c) (rev s)))
      else - 1)"

text \<open>\<open>s.split(c, 1)\<close>: one part when \<open>c\<close> is absent, else the parts around the first \<open>c\<close>.\<close>

definition split1 :: "string \<Rightarrow> char \<Rightarrow> string list" where
  "split1 s c =
     (if c \<in> set s then [takeWhile (\<lambda>x. x \<noteq> c) s, tl (dropWhile (\<lambda>x. x \<noteq> c) s)]
      else [s])"

text \<open>\<open>s.split(c)\<close>.\<close>

fun split_from :: "string \<Rightarrow> char \<Rightarrow> string \<Rightarrow> string list" where
  "split_from cur c [] = [cur]"
| "split_from cur c (x # s) =
     (if x = c then cur # split_from [] c s else split_from (cur @ [x]) c s)"

definition split :: "string \<Rightarrow> char \<Rightarrow> string list" where
  "split s c = split_from [] c s"

text \<open>\<open>s.replace(c, "")\<close>.\<close>

definition remove_char :: "char \<Rightarrow> string \<Rightarrow> string" where
  "remove_char c s = filter (\<lambda>x. x \<noteq> c) s"

text \<open>
  \<open>s.lower()\<close>: below 256 the letters with a lower case of their own are \<open>A\<close> to \<open>Z\<close>
  and the code points 0xC0 to 0xDE without 0xD7, each 32 below its lower case.
\<close>

definition lower_char :: "char \<Rightarrow> char" where
  "lower_char c =
     (let n = (of_char c :: nat)
      in if (65 \<le> n \<and> n \<le> 90) \<or> (192 \<le> n \<and> n \<le> 222 \<and> n \<noteq> 215)
         then char_of (n + 32) else c)"

definition lower :: "string \<Rightarrow> string" where
  "lower s = map lower_char s"

text \<open>\<open>a in s\<close> for two strings, and \<open>s.startswith(a)\<close>.\<close>

fun contains :: "string \<Rightarrow> string \<Rightarrow> bool" where
  "contains [] a = (a = [])"
| "contains (c # s) a = (take (length a) (c # s) = a \<or> contains s a)"

definition startswith :: "string \<Rightarrow> string \<Rightarrow> bool" where
  "startswith s a = (take (length a) s = a)"

text \<open>
  \<open>s.isdigit()\<close> and \<open>int(s)\<close>. Below 256 the digits are \<open>0\<close> to \<open>9\<close> and the three
  superscripts 0xB2, 0xB3 and 0xB9, which \<open>int\<close> refuses. \<open>int\<close> strips white space, but
  not the four separators 0x1C to 0x1F that \<open>strip\<close> removes. It is modelled for what
  \<open>isdigit\<close> lets through, no sign and no underscore; above 640 digits its answer
  depends on the limit the interpreter is configured with.
\<close>

definition isdecimal_char :: "char \<Rightarrow> bool" where
  "isdecimal_char c = (c \<in> set ''0123456789'')"

definition isdigit_char :: "char \<Rightarrow> bool" where
  "isdigit_char c = (isdecimal_char c \<or> c \<in> set [CHR 0xB2, CHR 0xB3, CHR 0xB9])"

definition isdigit :: "string \<Rightarrow> bool" where
  "isdigit s = (s \<noteq> [] \<and> list_all isdigit_char s)"

definition int_space :: "char \<Rightarrow> bool" where
  "int_space c = (c \<in> set [CHR 0x09, CHR 0x0A, CHR 0x0B, CHR 0x0C, CHR 0x0D, CHR 0x20,
                            CHR 0x85, CHR 0xA0])"

definition int_of_str :: "string \<Rightarrow> nat outcome" where
  "int_of_str s =
     (let t = strip int_space s
      in if t = [] \<or> \<not> list_all isdecimal_char t then Raise ValueError
         else if length t \<le> 640
         then Return (foldl (\<lambda>n c. 10 * n + (of_char c - 48)) 0 t)
         else Unmodelled)"

subsection \<open>urllib.parse\<close>

definition uses_netloc :: "string list" where
  "uses_netloc = [[], ''ftp'', ''http'', ''gopher'', ''nntp'', ''telnet'',
                  ''imap'', ''wais'', ''file'', ''mms'', ''https'', ''shttp'',
                  ''snews'', ''prospero'', ''rtsp'', ''rtsps'', ''rtspu'', ''rsync'',
                  ''svn'', ''svn+ssh'', ''sftp'', ''nfs'', ''git'', ''git+ssh'',
                  ''ws'', ''wss'']"

definition uses_params :: "string list" where
  "uses_params = [[], ''ftp'', ''hdl'', ''prospero'', ''http'', ''imap'',
                  ''https'', ''shttp'', ''rtsp'', ''rtsps'', ''rtspu'', ''sip'',
                  ''sips'', ''mms'', ''sftp'', ''tel'']"

definition scheme_chars :: string where
  "scheme_chars = ''abcdefghijklmnopqrstuvwxyz'' @ ''ABCDEFGHIJKLMNOPQRSTUVWXYZ'' @
                  ''0123456789'' @ ''+-.''"

text \<open>\<open>_WHATWG_C0_CONTROL_OR_SPACE\<close>: the code points 0 to 0x20.\<close>

definition WHATWG_C0_CONTROL_OR_SPACE :: "char \<Rightarrow> bool" where
  "WHATWG_C0_CONTROL_OR_SPACE c = ((of_char c :: nat) \<le> 32)"

definition UNSAFE_URL_BYTES_TO_REMOVE :: "char list" where
  "UNSAFE_URL_BYTES_TO_REMOVE = [CHR 0x09, CHR 0x0D, CHR 0x0A]"

definition isascii_alpha :: "char \<Rightarrow> bool" where
  "isascii_alpha c =
     (c \<in> set (''abcdefghijklmnopqrstuvwxyz'' @ ''ABCDEFGHIJKLMNOPQRSTUVWXYZ''))"

text \<open>
  \<^verbatim>\<open>
  def _splitnetloc(url, start=0):
      delim = len(url)
      for c in '/?#':
          wdelim = url.find(c, start)
          if wdelim >= 0:
              delim = min(delim, wdelim)
      return url[start:delim], url[delim:]
  \<close>
\<close>

definition splitnetloc :: "string \<Rightarrow> nat \<Rightarrow> string \<times> string" where
  "splitnetloc url start =
     (let delim = fold (\<lambda>c delim.
                     let wdelim = find_from url c start
                     in if wdelim \<ge> 0 then min delim (nat wdelim) else delim)
                   ''/?#'' (length url)
      in (drop start (take delim url), drop delim url))"

text \<open>
  \<^verbatim>\<open>
  def _check_bracketed_host(hostname):
      if hostname.startswith('v'):
          if not re.match(r"\Av[a-fA-F0-9]+\..+\Z", hostname):
              raise ValueError(f"IPvFuture address is invalid")
      else:
          ip = ipaddress.ip_address(hostname)
          if isinstance(ip, ipaddress.IPv4Address):
              raise ValueError(f"An IPv4 address cannot be in brackets")
  \<close>
  The parsing of IP addresses is not modelled.
\<close>

definition is_hexdig :: "char \<Rightarrow> bool" where
  "is_hexdig c = (c \<in> set ''0123456789ABCDEFabcdef'')"

definition check_bracketed_host :: "string \<Rightarrow> unit outcome" where
  "check_bracketed_host hostname =
     (if startswith hostname ''v''
      then (let digits = takeWhile is_hexdig (tl hostname);
                rest = dropWhile is_hexdig (tl hostname)
            in if digits \<noteq> [] \<and> startswith rest ''.'' \<and> tl rest \<noteq> []
                  \<and> CHR 0x0A \<notin> set (tl rest)
               then Return () else Raise ValueError)
      else Unmodelled)"

text \<open>
  \<open>urlsplit(url)\<close>, with the default arguments \<open>scheme=''\<close> and
  \<open>allow_fragments=True\<close>. \<open>_checknetloc\<close> raises only when the NFKC form of a netloc
  that is not ASCII contains one of \<open>/?#@:\<close>; no code point below 256 has such a form,
  so the call is left out.
\<close>

definition urlsplit ::
  "string \<Rightarrow> (string \<times> string \<times> string \<times> string \<times> string) outcome" where
  "urlsplit url0 =
     (let url1 = lstrip WHATWG_C0_CONTROL_OR_SPACE url0;
          url2 = fold remove_char UNSAFE_URL_BYTES_TO_REMOVE url1;
          i = find url2 CHR '':'';
          (scheme', url3) =
             (if i > 0 \<and> isascii_alpha (hd url2)
                 \<and> list_all (\<lambda>c. c \<in> set scheme_chars) (take (nat i) url2)
              then (lower (take (nat i) url2), drop (nat i + 1) url2)
              else ([], url2))
      in and_then
           (if take 2 url3 = ''//''
            then (let (netloc', url4) = splitnetloc url3 2
                  in if (CHR ''['' \<in> set netloc' \<and> CHR '']'' \<notin> set netloc')
                        \<or> (CHR '']'' \<in> set netloc' \<and> CHR ''['' \<notin> set netloc')
                     then Raise ValueError
                     else and_then
                            (if CHR ''['' \<in> set netloc' \<and> CHR '']'' \<in> set netloc'
                             then check_bracketed_host
                                    (takeWhile (\<lambda>x. x \<noteq> CHR '']'')
                                       (tl (dropWhile (\<lambda>x. x \<noteq> CHR ''['') netloc')))
                             else Return ())
                            (\<lambda>_. Return (netloc', url4)))
            else Return ([], url3))
           (\<lambda>(netloc', url5).
              let (url6, fragment') =
                    (if CHR ''#'' \<in> set url5
                     then (takeWhile (\<lambda>x. x \<noteq> CHR ''#'') url5,
                           tl (dropWhile (\<lambda>x. x \<noteq> CHR ''#'') url5))
                     else (url5, []));
                  (url7, query') =
                    (if CHR ''?'' \<in> set url6
                     then (takeWhile (\<lambda>x. x \<noteq> CHR ''?'') url6,
                           tl (dropWhile (\<lambda>x. x \<noteq> CHR ''?'') url6))
                     else (url6, []))
              in Return (scheme', netloc', url7, query', fragment')))"

text \<open>
  \<^verbatim>\<open>
  def _splitparams(url):
      if '/'  in url:
          i = url.find(';', url.rfind('/'))
          if i < 0:
              return url, ''
      else:
          i = url.find(';')
      return url[:i], url[i+1:]
  \<close>
  It is called only when \<open>;\<close> occurs in \<open>url\<close>, so that \<open>i\<close> is not negative in the
  second branch.
\<close>

definition splitparams :: "string \<Rightarrow> string \<times> string" where
  "splitparams url =
     (if CHR ''/'' \<in> set url
      then (let i = find_from url CHR '';'' (nat (rfind url CHR ''/''))
            in if i < 0 then (url, []) else (take (nat i) url, drop (nat i + 1) url))
      else (let i = find url CHR '';'' in (take (nat i) url, drop (nat i + 1) url)))"

definition urllib_urlparse :: "string \<Rightarrow> ParseResult outcome" where
  "urllib_urlparse url =
     and_then (urlsplit url) (\<lambda>(scheme', netloc', url', query', fragment').
       let (url'', params') =
             (if scheme' \<in> set uses_params \<and> CHR '';'' \<in> set url'
              then splitparams url' else (url', []))
       in Return \<lparr>scheme = scheme', netloc = netloc', path = url'', params = params',
                   query = query', fragment = fragment'\<rparr>)"

text \<open>
  \<^verbatim>\<open>
  def urlunsplit(components):
      scheme, netloc, url, query, fragment, _coerce_result = (
                                            _coerce_args(*components))
      if netloc or (scheme and scheme in uses_netloc) or url[:2] == '//':
          if url and url[:1] != '/': url = '/' + url
          url = '//' + (netloc or '') + url
      if scheme:
          url = scheme + ':' + url
      if query:
          url = url + '?' + query
      if fragment:
          url = url + '#' + fragment
      return _coerce_result(url)
  \<close>
\<close>

definition urlunsplit :: "string \<times> string \<times> string \<times> string \<times> string \<Rightarrow> string" where
  "urlunsplit components =
     (case components of (scheme', netloc', url0, query', fragment') \<Rightarrow>
        let url1 = (if netloc' \<noteq> [] \<or> (scheme' \<noteq> [] \<and> scheme' \<in> set uses_netloc)
                       \<or> take 2 url0 = ''//''
                    then ''//'' @ netloc' @
                         (if url0 \<noteq> [] \<and> take 1 url0 \<noteq> ''/'' then ''/'' @ url0 else url0)
                    else url0);
            url2 = (if scheme' \<noteq> [] then scheme' @ '':'' @ url1 else url1);
            url3 = (if query' \<noteq> [] then url2 @ ''?'' @ query' else url2)
        in (if fragment' \<noteq> [] then url3 @ ''#'' @ fragment' else url3))"

definition urllib_urlunparse :: "ParseResult \<Rightarrow> string" where
  "urllib_urlunparse p =
     (let url = (if params p \<noteq> [] then path p @ '';'' @ params p else path p)
      in urlunsplit (scheme p, netloc p, url, query p, fragment p))"

text \<open>
  \<open>quote(string)\<close> with the default \<open>safe='/'\<close>: the string is encoded in UTF-8 (one
  byte below 128, two bytes from 128 to 255), and every byte that is not a letter, a
  digit or one of \<open>_.-~/\<close> becomes \<open>%XX\<close> with upper case hexadecimal digits.
\<close>

definition ALWAYS_SAFE :: string where
  "ALWAYS_SAFE = ''ABCDEFGHIJKLMNOPQRSTUVWXYZ'' @ ''abcdefghijklmnopqrstuvwxyz'' @
                 ''0123456789'' @ ''_.-~''"

definition encode_utf8 :: "string \<Rightarrow> nat list" where
  "encode_utf8 s =
     concat (map (\<lambda>c. let n = (of_char c :: nat)
                       in if n < 128 then [n] else [192 + n div 64, 128 + n mod 64]) s)"

definition quoter :: "string \<Rightarrow> nat \<Rightarrow> string" where
  "quoter safe b =
     (if b < 128 \<and> char_of b \<in> set (ALWAYS_SAFE @ safe) then [char_of b]
      else [CHR ''%'', ''0123456789ABCDEF'' ! (b div 16), ''0123456789ABCDEF'' ! (b mod 16)])"

definition urllib_quote :: "string \<Rightarrow> string" where
  "urllib_quote s = concat (map (quoter ''/'') (encode_utf8 s))"

text \<open>
  \<open>unquote(string)\<close>: every \<open>%\<close> that two hexadecimal digits follow is replaced by the
  byte they give, and the bytes are decoded as UTF-8. A byte below 128 is the character
  of that number. The decoding of the bytes from 128 on, which can give a replacement
  character or a code point above 255, is not modelled.
\<close>

definition hexval :: "char \<Rightarrow> nat" where
  "hexval c =
     (if c \<in> set ''0123456789'' then of_char c - 48
      else if c \<in> set ''ABCDEF'' then of_char c - 55
      else of_char c - 87)"

fun urllib_unquote :: "string \<Rightarrow> string outcome" where
  "urllib_unquote (c # h1 # h2 # s) =
     (if c = CHR ''%'' \<and> is_hexdig h1 \<and> is_hexdig h2
      then (let b = 16 * hexval h1 + hexval h2
            in if b < 128 then and_then (urllib_unquote s) (\<lambda>r. Return (char_of b # r))
               else Unmodelled)
      else and_then (urllib_unquote (h1 # h2 # s)) (\<lambda>r. Return (c # r)))"
| "urllib_unquote (c # s) = and_then (urllib_unquote s) (\<lambda>r. Return (c # r))"
| "urllib_unquote [] = Return []"

subsection \<open>urllib.robotparser\<close>

text \<open>
  \<^verbatim>\<open>
  class RuleLine:
      def __init__(self, path, allowance):
          if path == '' and not allowance:
              # an empty value means allow all
              allowance = True
          path = urllib.parse.urlunparse(urllib.parse.urlparse(path))
          self.path = urllib.parse.quote(path)
          self.allowance = allowance

      def applies_to(self, filename):
          return self.path == "*" or filename.startswith(self.path)
  \<close>
\<close>

datatype RuleLine = RuleLine (rule_path: string) (rule_allowance: bool)

definition RuleLine_init :: "string \<Rightarrow> bool \<Rightarrow> RuleLine outcome" where
  "RuleLine_init path' allowance =
     (let allowance' = (if path' = [] \<and> \<not> allowance then True else allowance)
      in and_then (urllib_urlparse path') (\<lambda>p.
           Return (RuleLine (urllib_quote (urllib_urlunparse p)) allowance')))"

definition RuleLine_applies_to :: "RuleLine \<Rightarrow> string \<Rightarrow> bool" where
  "RuleLine_applies_to line filename =
     (rule_path line = ''*'' \<or> startswith filename (rule_path line))"

text \<open>
  An \<open>Entry\<close> has the user agents and the rule lines of one group, and the values of its
  \<open>Crawl-delay\<close> and \<open>Request-rate\<close> lines.
  \<^verbatim>\<open>
      def applies_to(self, useragent):
          # split the name token and make it lower case
          useragent = useragent.split("/")[0].lower()
          for agent in self.useragents:
              if agent == '*':
                  # we have the catch-all agent
                  return True
              agent = agent.lower()
              if agent in useragent:
                  return True
          return False

      def allowance(self, filename):
          for line in self.rulelines:
              if line.applies_to(filename):
                  return line.allowance
          return True
  \<close>
\<close>

record Entry =
  useragents :: "string list"
  rulelines :: "RuleLine list"
  delay :: "nat option"
  req_rate :: "(nat \<times> nat) option"

definition Entry_init :: Entry where
  "Entry_init = \<lparr>useragents = [], rulelines = [], delay = None, req_rate = None\<rparr>"

fun agents_apply :: "string list \<Rightarrow> string \<Rightarrow> bool" where
  "agents_apply [] useragent = False"
| "agents_apply (agent # agents) useragent =
     (if agent = ''*'' then True
      else if contains useragent (lower agent) then True
      else agents_apply agents useragent)"

definition Entry_applies_to :: "Entry \<Rightarrow> string \<Rightarrow> bool" where
  "Entry_applies_to entry useragent =
     agents_apply (useragents entry) (lower (hd (split useragent CHR ''/'')))"

fun lines_allowance :: "RuleLine list \<Rightarrow> string \<Rightarrow> bool" where
  "lines_allowance [] filename = True"
| "lines_allowance (line # lines) filename =
     (if RuleLine_applies_to line filename then rule_allowance line
      else lines_allowance lines filename)"

definition Entry_allowance :: "Entry \<Rightarrow> string \<Rightarrow> bool" where
  "Entry_allowance entry filename = lines_allowance (rulelines entry) filename"

text \<open>
  The attributes of a \<open>RobotFileParser\<close>. Of \<open>last_checked\<close>, which is 0 at first and
  the time of the clock after \<open>modified()\<close>, only whether it is non-zero is kept.
\<close>

record RobotFileParser_obj =
  entries :: "Entry list"
  sitemaps :: "string list"
  default_entry :: "Entry option"
  disallow_all :: bool
  allow_all :: bool
  rp_url :: string
  rp_host :: string
  rp_path :: string
  last_checked :: bool

definition RobotFileParser_set_url ::
  "RobotFileParser_obj \<Rightarrow> string \<Rightarrow> RobotFileParser_obj outcome" where
  "RobotFileParser_set_url self url =
     and_then (urllib_urlparse url) (\<lambda>p.
       Return (self\<lparr>rp_url := url, rp_host := netloc p, rp_path := path p\<rparr>))"

definition RobotFileParser_init :: "RobotFileParser_obj outcome" where
  "RobotFileParser_init =
     and_then
       (RobotFileParser_set_url
          \<lparr>entries = [], sitemaps = [], default_entry = None, disallow_all = False,
           allow_all = False, rp_url = [], rp_host = [], rp_path = [],
           last_checked = False\<rparr> [])
       (\<lambda>self. Return (self\<lparr>last_checked := False\<rparr>))"

text \<open>
  \<^verbatim>\<open>
      def _add_entry(self, entry):
          if "*" in entry.useragents:
              # the default entry is considered last
              if self.default_entry is None:
                  # the first default entry wins
                  self.default_entry = entry
          else:
              self.entries.append(entry)
  \<close>
\<close>

definition add_entry :: "RobotFileParser_obj \<Rightarrow> Entry \<Rightarrow> RobotFileParser_obj" where
  "add_entry self entry =
     (if ''*'' \<in> set (useragents entry)
      then (if default_entry self = None then self\<lparr>default_entry := Some entry\<rparr> else self)
      else self\<lparr>entries := entries self @ [entry]\<rparr>)"

text \<open>
  The body of the loop \<open>for line in lines\<close> of \<open>parse\<close>, on the parser object, the state
  (0 at the start, 1 after a user-agent line, 2 after a rule line) and the entry being
  filled. Where it raises, nothing has been stored for that line.
\<close>

definition parse_line ::
  "RobotFileParser_obj \<times> nat \<times> Entry \<Rightarrow> string
     \<Rightarrow> (RobotFileParser_obj \<times> nat \<times> Entry) outcome" where
  "parse_line acc line0 =
     (case acc of (self, state, entry) \<Rightarrow>
      if line0 = []
      then (if state = 1 then Return (self, 0, Entry_init)
            else if state = 2 then Return (add_entry self entry, 0, Entry_init)
            else Return (self, state, entry))
      else
        let i = find line0 CHR ''#'';
            line1 = (if i \<ge> 0 then take (nat i) line0 else line0);
            line2 = strip isspace line1
        in if line2 = [] then Return (self, state, entry)
           else (case split1 line2 CHR '':'' of
                   [k, v] \<Rightarrow>
                     let key = lower (strip isspace k)
                     in and_then (urllib_unquote (strip isspace v)) (\<lambda>val.
                          if key = ''user-agent''
                          then (let (self', entry') =
                                      (if state = 2 then (add_entry self entry, Entry_init)
                                       else (self, entry))
                                in Return (self', 1,
                                           entry'\<lparr>useragents := useragents entry' @ [val]\<rparr>))
                          else if key = ''disallow''
                          then (if state \<noteq> 0
                                then and_then (RuleLine_init val False) (\<lambda>r.
                                       Return (self, 2,
                                               entry\<lparr>rulelines := rulelines entry @ [r]\<rparr>))
                                else Return (self, state, entry))
                          else if key = ''allow''
                          then (if state \<noteq> 0
                                then and_then (RuleLine_init val True) (\<lambda>r.
                                       Return (self, 2,
                                               entry\<lparr>rulelines := rulelines entry @ [r]\<rparr>))
                                else Return (self, state, entry))
                          else if key = ''crawl-delay''
                          then (if state \<noteq> 0
                                then (if isdigit (strip isspace val)
                                      then and_then (int_of_str val) (\<lambda>n.
                                             Return (self, 2, entry\<lparr>delay := Some n\<rparr>))
                                      else Return (self, 2, entry))
                                else Return (self, state, entry))
                          else if key = ''request-rate''
                          then (if state \<noteq> 0
                                then (let numbers = split val CHR ''/''
                                      in if length numbers = 2
                                            \<and> isdigit (strip isspace (numbers ! 0))
                                            \<and> isdigit (strip isspace (numbers ! 1))
                                         then and_then (int_of_str (numbers ! 0)) (\<lambda>n.
                                              and_then (int_of_str (numbers ! 1)) (\<lambda>m.
                                                Return (self, 2,
                                                        entry\<lparr>req_rate := Some (n, m)\<rparr>)))
                                         else Return (self, 2, entry))
                                else Return (self, state, entry))
                          else if key = ''sitemap''
                          then Return (self\<lparr>sitemaps := sitemaps self @ [val]\<rparr>, state, entry)
                          else Return (self, state, entry))
                 | _ \<Rightarrow> Return (self, state, entry)))"

fun parse_lines ::
  "RobotFileParser_obj \<times> nat \<times> Entry \<Rightarrow> string list \<Rightarrow> RobotFileParser_obj \<times> unit outcome"
  where
  "parse_lines (self, state, entry) [] =
     (if state = 2 then (add_entry self entry, Return ()) else (self, Return ()))"
| "parse_lines (self, state, entry) (line # lines) =
     (case parse_line (self, state, entry) line of
        Return acc \<Rightarrow> parse_lines acc lines
      | Raise e \<Rightarrow> (self, Raise e)
      | Unmodelled \<Rightarrow> (self, Unmodelled))"

text \<open>
  \<open>parse(lines)\<close> starts in state 0 with a new entry, after \<open>self.modified()\<close>.
\<close>

definition RobotFileParser_parse ::
  "RobotFileParser_obj \<Rightarrow> string list \<Rightarrow> RobotFileParser_obj \<times> unit outcome" where
  "RobotFileParser_parse self lines =
     parse_lines (self\<lparr>last_checked := True\<rparr>, 0, Entry_init) lines"

text \<open>
  \<^verbatim>\<open>
      def can_fetch(self, useragent, url):
          if self.disallow_all:
              return False
          if self.allow_all:
              return True
          if not self.last_checked:
              return False
          parsed_url = urllib.parse.urlparse(urllib.parse.unquote(url))
          url = urllib.parse.urlunparse(('','',parsed_url.path,
              parsed_url.params,parsed_url.query, parsed_url.fragment))
          url = urllib.parse.quote(url)
          if not url:
              url = "/"
          for entry in self.entries:
              if entry.applies_to(useragent):
                  return entry.allowance(url)
          # try the default entry last
          if self.default_entry:
              return self.default_entry.allowance(url)
          # agent not found ==> access granted
          return True
  \<close>
\<close>

fun first_entry :: "Entry list \<Rightarrow> string \<Rightarrow> Entry option" where
  "first_entry [] useragent = None"
| "first_entry (entry # es) useragent =
     (if Entry_applies_to entry useragent then Some entry else first_entry es useragent)"

definition RobotFileParser_can_fetch ::
  "RobotFileParser_obj \<Rightarrow> string \<Rightarrow> string \<Rightarrow> bool outcome" where
  "RobotFileParser_can_fetch self useragent url =
     (if disallow_all self then Return False
      else if allow_all self then Return True
      else if \<not> last_checked self then Return False
      else and_then (urllib_unquote url) (\<lambda>unquoted.
           and_then (urllib_urlparse unquoted) (\<lambda>parsed_url.
             let url1 = urllib_urlunparse (parsed_url\<lparr>scheme := [], netloc := []\<rparr>);
                 url2 = urllib_quote url1;
                 url3 = (if url2 = [] then ''/'' else url2)
             in case first_entry (entries self) useragent of
                  Some entry \<Rightarrow> Return (Entry_allowance entry url3)
                | None \<Rightarrow>
                    (case default_entry self of
                       Some entry \<Rightarrow> Return (Entry_allowance entry url3)
                     | None \<Rightarrow> Return True))))"

text \<open>
  The library over a given network: \<open>get\<close> says what \<open>requests.get\<close> does for each URL.
\<close>

definition cpython :: "(string \<Rightarrow> Response outcome) \<Rightarrow> RobotFileParser_obj pylib" where
  "cpython get =
     \<lparr>urlparse = urllib_urlparse,
      urlunparse = (\<lambda>p. Return (urllib_urlunparse p)),
      requests_get = get,
      RobotFileParser = RobotFileParser_init,
      set_url = RobotFileParser_set_url,
      parse = RobotFileParser_parse,
      can_fetch = RobotFileParser_can_fetch\<rparr>"

subsection \<open>requests\<close>

text \<open>
  Two of the exception classes of \<open>requests.exceptions\<close>, with the classes they inherit
  from: a refused connection or a failed name lookup gives \<open>ConnectionError\<close>, a
  connection not made within the timeout gives \<open>ConnectTimeout\<close>.
\<close>

definition ConnectionError :: exc where
  "ConnectionError = Exc ''ConnectionError''
     [''RequestException'', ''OSError'', ''Exception'', ''BaseException'', ''object'']"

definition ConnectTimeout :: exc where
  "ConnectTimeout = Exc ''ConnectTimeout''
     [''ConnectionError'', ''Timeout'', ''RequestException'', ''OSError'', ''Exception'',
      ''BaseException'', ''object'']"

text \<open>
  Two networks: one in which a single URL is served with a given response and no other
  host is reached, and one in which every request fails with the same exception.
\<close>

definition serving :: "string \<Rightarrow> Response \<Rightarrow> string \<Rightarrow> Response outcome" where
  "serving u r url = (if url = u then Return r else Raise ConnectionError)"

definition failing :: "exc \<Rightarrow> string \<Rightarrow> Response outcome" where
  "failing e url = Raise e"

subsection \<open>Host names\<close>

text \<open>
  The request URLs of the examples name a site by a plain host name: letters, digits,
  dots and hyphens, at least one character.
\<close>

definition hostname_chars :: string where
  "hostname_chars = ''abcdefghijklmnopqrstuvwxyz'' @ ''ABCDEFGHIJKLMNOPQRSTUVWXYZ'' @
                    ''0123456789'' @ ''.-''"

definition is_hostname :: "string \<Rightarrow> bool" where
  "is_hostname h = (h \<noteq> [] \<and> list_all (\<lambda>c. c \<in> set hostname_chars) h)"

section \<open>What the handler returns\<close>

lemma and_then_Return:
  "and_then m f = Return y \<longleftrightarrow> (\<exists>x. m = Return x \<and> f x = Return y)"
  by (cases m) simp_all

text \<open>
  The loop appends one result for each user agent, in order, and appends to the blocked
  list the user agents that \<open>can_fetch\<close> refused.
\<close>

lemma for_ua_in_bots_Return:
  "for_ua_in_bots py rp origin bots (rs, bl) = Return (rs', bl') \<Longrightarrow>
     \<exists>new. rs' = rs @ new \<and> map userAgent new = bots
       \<and> bl' = bl @ map userAgent (filter (\<lambda>r. \<not> canFetchRoot r) new)
       \<and> (\<forall>r \<in> set new. canFetchSitewide r = canFetchRoot r \<and> notes r = None
             \<and> can_fetch py rp (userAgent r) (origin @ ''/'') = Return (canFetchRoot r))"
proof (induction bots arbitrary: rs bl)
  case Nil
  then show ?case by simp
next
  case (Cons ua bots)
  let ?b = "\<lambda>c. \<lparr>userAgent = ua, canFetchRoot = c, canFetchSitewide = c, notes = None\<rparr>"
  from Cons.prems obtain c where c: "can_fetch py rp ua (origin @ ''/'') = Return c"
    and rest: "for_ua_in_bots py rp origin bots
        (rs @ [?b c], if \<not> c then bl @ [ua] else bl) = Return (rs', bl')"
    by (auto simp: and_then_Return Let_def)
  from Cons.IH[OF rest] obtain new where new:
    "rs' = (rs @ [?b c]) @ new"
    "map userAgent new = bots"
    "bl' = (if \<not> c then bl @ [ua] else bl)
             @ map userAgent (filter (\<lambda>r. \<not> canFetchRoot r) new)"
    "\<forall>r \<in> set new. canFetchSitewide r = canFetchRoot r \<and> notes r = None
             \<and> can_fetch py rp (userAgent r) (origin @ ''/'') = Return (canFetchRoot r)"
    by blast
  show ?case
    by (rule exI[of _ "?b c # new"]) (use new c in auto)
qed

text \<open>
  The three ways in which the handler returns a response: the fetch raised a
  \<open>RequestException\<close>; the fetch gave a status other than 200 or a body of white space;
  the file was found, and the loop ran over all of \<open>bots\<close>.
\<close>

lemma check_ai_bot_block_Return:
  assumes "check_ai_bot_block py url bots inc = Return resp"
  shows "\<exists>n. normalize_to_origin py url = Return n \<and>
     ((\<exists>e. requests_get py (rstrip (\<lambda>c. c = CHR ''/'') n @ ''/robots.txt'') = Raise e
           \<and> isinstance e ''RequestException''
           \<and> resp = \<lparr>robotsTxtFound = False,
                       robotsUrl = rstrip (\<lambda>c. c = CHR ''/'') n @ ''/robots.txt'',
                       statusCode = None, blockedBots = [], results = [], robotsTxt = None,
                       warnings = [''Fetch error: '' @ class_name e]\<rparr>)
    \<or> (\<exists>r. requests_get py (rstrip (\<lambda>c. c = CHR ''/'') n @ ''/robots.txt'') = Return r
           \<and> (status_code r \<noteq> 200 \<or> strip isspace (resp_text r) = [])
           \<and> resp = \<lparr>robotsTxtFound = False,
                       robotsUrl = rstrip (\<lambda>c. c = CHR ''/'') n @ ''/robots.txt'',
                       statusCode = Some (status_code r), blockedBots = [], results = [],
                       robotsTxt = None, warnings = []\<rparr>)
    \<or> (\<exists>r rp ws new.
           requests_get py (rstrip (\<lambda>c. c = CHR ''/'') n @ ''/robots.txt'') = Return r
           \<and> status_code r = 200 \<and> strip isspace (resp_text r) \<noteq> []
           \<and> map userAgent new = bots
           \<and> (\<forall>b \<in> set new. canFetchSitewide b = canFetchRoot b \<and> notes b = None
                 \<and> can_fetch py rp (userAgent b) (rstrip (\<lambda>c. c = CHR ''/'') n @ ''/'')
                     = Return (canFetchRoot b))
           \<and> resp = \<lparr>robotsTxtFound = True,
                       robotsUrl = rstrip (\<lambda>c. c = CHR ''/'') n @ ''/robots.txt'',
                       statusCode = Some 200,
                       blockedBots = map userAgent (filter (\<lambda>b. \<not> canFetchRoot b) new),
                       results = new,
                       robotsTxt = (if inc then Some (resp_text r) else None),
                       warnings = ws\<rparr>))"
proof -
  from assms obtain n where n: "normalize_to_origin py url = Return n"
    by (auto simp: check_ai_bot_block_def and_then_Return)
  let ?o = "rstrip (\<lambda>c. c = CHR ''/'') n"
  let ?u = "?o @ ''/robots.txt''"
  show ?thesis
  proof (cases "requests_get py ?u")
    case (Raise e)
    with assms n show ?thesis
      by (auto simp: check_ai_bot_block_def Let_def split: if_splits)
  next
    case Unmodelled
    with assms n show ?thesis
      by (simp add: check_ai_bot_block_def Let_def)
  next
    case (Return r)
    show ?thesis
    proof (cases "status_code r \<noteq> 200 \<or> strip isspace (resp_text r) = []")
      case True
      with assms n Return show ?thesis
        by (auto simp: check_ai_bot_block_def Let_def)
    next
      case False
      from assms n Return False obtain rp0 rp1 where
        rest: "(case parse py rp1 (splitlines (resp_text r)) of (rp, ended) \<Rightarrow>
                 and_then
                   (case ended of
                      Return _ \<Rightarrow> Return []
                    | Raise e \<Rightarrow>
                        if isinstance e ''Exception''
                        then Return ([] @ [''Parse warning: '' @ class_name e])
                        else Raise e
                    | Unmodelled \<Rightarrow> Unmodelled)
                   (\<lambda>ws. and_then (for_ua_in_bots py rp ?o bots ([], []))
                      (\<lambda>(rs, bl).
                        Return \<lparr>robotsTxtFound = True, robotsUrl = ?u,
                                 statusCode = Some (status_code r), blockedBots = bl,
                                 results = rs,
                                 robotsTxt = (if inc then Some (resp_text r) else None),
                                 warnings = ws\<rparr>))) = Return resp"
        by (auto simp: check_ai_bot_block_def Let_def and_then_Return)
      obtain rp ended where pe: "parse py rp1 (splitlines (resp_text r)) = (rp, ended)"
        by (cases "parse py rp1 (splitlines (resp_text r))")
      from rest pe False obtain ws rs bl where
        loop: "for_ua_in_bots py rp ?o bots ([], []) = Return (rs, bl)"
        and resp: "resp = \<lparr>robotsTxtFound = True, robotsUrl = ?u, statusCode = Some 200,
                     blockedBots = bl, results = rs,
                     robotsTxt = (if inc then Some (resp_text r) else None),
                     warnings = ws\<rparr>"
        by (auto simp: and_then_Return)
      from for_ua_in_bots_Return[OF loop] obtain new where
        "rs = new" "map userAgent new = bots"
        "bl = map userAgent (filter (\<lambda>r. \<not> canFetchRoot r) new)"
        "\<forall>b \<in> set new. canFetchSitewide b = canFetchRoot b \<and> notes b = None
             \<and> can_fetch py rp (userAgent b) (?o @ ''/'') = Return (canFetchRoot b)"
        by auto
      with n Return False resp show ?thesis by auto
    qed
  qed
qed

lemma filter_zip_userAgent:
  "map userAgent new = bots \<Longrightarrow>
     map fst (filter (\<lambda>(ua, r). \<not> canFetchRoot r) (zip bots new))
       = map userAgent (filter (\<lambda>r. \<not> canFetchRoot r) new)"
  by (induction new arbitrary: bots) auto

subsection \<open>Three requests for example.com\<close>

text \<open>
  The site serves a robots.txt that closes the site to GPTBot; the site has no
  robots.txt; the site is not reached within the timeout.
\<close>

lemma run_found:
  "check_ai_bot_block
     (cpython (serving ''https://example.com/robots.txt''
        \<lparr>status_code = 200, resp_text = ''User-agent: GPTBot\<newline>Disallow: /''\<rparr>))
     ''example.com'' [''GPTBot'', ''ClaudeBot''] True
   = Return \<lparr>robotsTxtFound = True, robotsUrl = ''https://example.com/robots.txt'',
       statusCode = Some 200, blockedBots = [''GPTBot''],
       results = [\<lparr>userAgent = ''GPTBot'', canFetchRoot = False, canFetchSitewide = False,
                    notes = None\<rparr>,
                  \<lparr>userAgent = ''ClaudeBot'', canFetchRoot = True, canFetchSitewide = True,
                    notes = None\<rparr>],
       robotsTxt = Some ''User-agent: GPTBot\<newline>Disallow: /'', warnings = []\<rparr>"
  by code_simp

lemma run_not_found:
  "check_ai_bot_block
     (cpython (serving ''https://example.com/robots.txt''
        \<lparr>status_code = 404, resp_text = ''Not Found''\<rparr>))
     ''example.com'' [''GPTBot''] True
   = Return \<lparr>robotsTxtFound = False, robotsUrl = ''https://example.com/robots.txt'',
       statusCode = Some 404, blockedBots = [], results = [], robotsTxt = None,
       warnings = []\<rparr>"
  by code_simp

lemma run_fetch_error:
  "check_ai_bot_block (cpython (failing ConnectTimeout)) ''example.com'' [''GPTBot''] True
   = Return \<lparr>robotsTxtFound = False, robotsUrl = ''https://example.com/robots.txt'',
       statusCode = None, blockedBots = [], results = [], robotsTxt = None,
       warnings = [''Fetch error: ConnectTimeout'']\<rparr>"
  by code_simp

lemma normalize_example_com:
  "normalize_to_origin (cpython net) ''example.com'' = Return ''https://example.com''"
  by code_simp

section \<open>The library on plain host names\<close>

text \<open>
  What \<open>urlsplit\<close>, \<open>urlparse\<close>, \<open>set_url\<close> and \<open>can_fetch\<close> compute for a URL made of
  a scheme, \<open>://\<close>, a netloc without delimiters and a path, and what
  \<open>normalize_to_origin\<close> returns for a plain host name with or without \<open>http://\<close> or
  \<open>https://\<close> before it.
\<close>

subsection \<open>Strings\<close>

lemma takeWhile_upto:
  "c \<notin> set a \<Longrightarrow> takeWhile (\<lambda>x. x \<noteq> c) (a @ c # b) = a"
  by (induction a) auto

lemma find_append_first:
  "c \<notin> set a \<Longrightarrow> find (a @ c # b) c = int (length a)"
  by (simp add: find_def takeWhile_upto)

lemma find_absent: "c \<notin> set s \<Longrightarrow> find s c = - 1"
  by (simp add: find_def)

lemma remove_char_absent: "c \<notin> set s \<Longrightarrow> remove_char c s = s"
  by (induction s) (auto simp: remove_char_def)

lemma lstrip_hd: "s \<noteq> [] \<Longrightarrow> \<not> P (hd s) \<Longrightarrow> lstrip P s = s"
  by (cases s) (simp_all add: lstrip_def)

lemma rstrip_last: "s \<noteq> [] \<Longrightarrow> \<not> P (last s) \<Longrightarrow> rstrip P s = s"
  by (cases s rule: rev_cases) (simp_all add: rstrip_def)

lemma urllib_unquote_absent: "CHR ''%'' \<notin> set s \<Longrightarrow> urllib_unquote s = Return s"
  by (induction s rule: urllib_unquote.induct) auto

subsection \<open>A scheme, a netloc and a path\<close>

lemma splitnetloc_2:
  assumes "CHR ''/'' \<notin> set loc" "CHR ''?'' \<notin> set loc" "CHR ''#'' \<notin> set loc"
    and "p = [] \<or> hd p = CHR ''/''" "CHR ''?'' \<notin> set p" "CHR ''#'' \<notin> set p"
  shows "splitnetloc (''//'' @ loc @ p) 2 = (loc, p)"
proof (cases p)
  case Nil
  with assms show ?thesis
    by (simp add: splitnetloc_def find_from_def)
next
  case (Cons c p')
  with assms have p: "p = CHR ''/'' # p'" by simp
  have n: "nat (2 + int (length loc)) = Suc (Suc (length loc))" by simp
  from p assms show ?thesis
    by (simp add: splitnetloc_def find_from_def Let_def takeWhile_upto min_def n)
qed

lemma urlsplit_scheme_netloc:
  assumes sch: "sch \<noteq> []" "isascii_alpha (hd sch)"
      "list_all (\<lambda>c. c \<in> set scheme_chars) sch"
    and loc: "\<forall>c \<in> set ''/?#[]''. c \<notin> set loc"
    and p: "p = [] \<or> hd p = CHR ''/''" "\<forall>c \<in> set ''?#''. c \<notin> set p"
    and ws: "\<forall>c \<in> set UNSAFE_URL_BYTES_TO_REMOVE. c \<notin> set (loc @ p)"
  shows "urlsplit (sch @ ''://'' @ loc @ p) = Return (lower sch, loc, p, [], [])"
proof -
  let ?url = "sch @ CHR '':'' # CHR ''/'' # CHR ''/'' # loc @ p"
  have e: "sch @ ''://'' @ loc @ p = ?url" by simp
  have sc: "c \<notin> set sch" if "c \<notin> set scheme_chars" for c
    using sch(3) that by (auto simp: list_all_iff)
  have nc: "CHR '':'' \<notin> set sch" "CHR 0x09 \<notin> set sch" "CHR 0x0D \<notin> set sch"
    "CHR 0x0A \<notin> set sch"
    by (rule sc, simp add: scheme_chars_def)+
  have "\<not> WHATWG_C0_CONTROL_OR_SPACE (hd sch)"
    using sch(2) by (auto simp: isascii_alpha_def WHATWG_C0_CONTROL_OR_SPACE_def)
  with sch(1) have 1: "lstrip WHATWG_C0_CONTROL_OR_SPACE ?url = ?url"
    by (intro lstrip_hd) auto
  have 2: "fold remove_char UNSAFE_URL_BYTES_TO_REMOVE ?url = ?url"
    using ws nc by (simp add: UNSAFE_URL_BYTES_TO_REMOVE_def remove_char_absent)
  have 3: "find ?url CHR '':'' = int (length sch)"
    using nc(1) by (rule find_append_first)
  have 4: "hd ?url = hd sch" using sch(1) by simp
  have 5: "splitnetloc (CHR ''/'' # CHR ''/'' # loc @ p) 2 = (loc, p)"
    using loc p splitnetloc_2[of loc p] by simp
  show ?thesis
    unfolding e using sch loc p
    by (simp add: urlsplit_def 1 2 3 4 5 Let_def)
qed

lemma urllib_urlparse_scheme_netloc:
  assumes "sch \<noteq> []" "isascii_alpha (hd sch)"
      "list_all (\<lambda>c. c \<in> set scheme_chars) sch"
    and "\<forall>c \<in> set ''/?#[]''. c \<notin> set loc"
    and "p = [] \<or> hd p = CHR ''/''" "\<forall>c \<in> set ''?#;''. c \<notin> set p"
    and "\<forall>c \<in> set UNSAFE_URL_BYTES_TO_REMOVE. c \<notin> set (loc @ p)"
  shows "urllib_urlparse (sch @ ''://'' @ loc @ p)
     = Return \<lparr>scheme = lower sch, netloc = loc, path = p, params = [], query = [],
                fragment = []\<rparr>"
proof -
  have "urlsplit (sch @ ''://'' @ loc @ p) = Return (lower sch, loc, p, [], [])"
    using assms by (intro urlsplit_scheme_netloc) auto
  with assms(6) show ?thesis
    by (simp add: urllib_urlparse_def)
qed

lemma RobotFileParser_set_url_scheme_netloc:
  assumes "sch \<noteq> []" "isascii_alpha (hd sch)"
      "list_all (\<lambda>c. c \<in> set scheme_chars) sch"
    and "\<forall>c \<in> set ''/?#[]''. c \<notin> set loc"
    and "\<forall>c \<in> set UNSAFE_URL_BYTES_TO_REMOVE. c \<notin> set loc"
  shows "RobotFileParser_set_url self (sch @ ''://'' @ loc @ ''/robots.txt'')
    = Return (self\<lparr>rp_url := sch @ ''://'' @ loc @ ''/robots.txt'', rp_host := loc,
                     rp_path := ''/robots.txt''\<rparr>)"
proof -
  have "urllib_urlparse (sch @ ''://'' @ loc @ ''/robots.txt'')
     = Return \<lparr>scheme = lower sch, netloc = loc, path = ''/robots.txt'', params = [],
                query = [], fragment = []\<rparr>"
    using assms
    by (intro urllib_urlparse_scheme_netloc) (auto simp: UNSAFE_URL_BYTES_TO_REMOVE_def)
  then show ?thesis
    by (simp add: RobotFileParser_set_url_def)
qed

lemma can_fetch_root:
  assumes "sch \<noteq> []" "isascii_alpha (hd sch)"
      "list_all (\<lambda>c. c \<in> set scheme_chars) sch"
    and "\<forall>c \<in> set ''/?#[]%''. c \<notin> set loc"
    and "\<forall>c \<in> set UNSAFE_URL_BYTES_TO_REMOVE. c \<notin> set loc"
    and "\<not> disallow_all self" "\<not> allow_all self" "last_checked self"
  shows "RobotFileParser_can_fetch self useragent (sch @ ''://'' @ loc @ ''/'')
    = Return (case first_entry (entries self) useragent of
                Some entry \<Rightarrow> Entry_allowance entry ''/''
              | None \<Rightarrow> (case default_entry self of
                           Some entry \<Rightarrow> Entry_allowance entry ''/''
                         | None \<Rightarrow> True))"
proof -
  have sc: "c \<notin> set sch" if "c \<notin> set scheme_chars" for c
    using assms(3) that by (auto simp: list_all_iff)
  define u where "u = sch @ ''://'' @ loc @ ''/''"
  have "CHR ''%'' \<notin> set sch" by (rule sc) (simp add: scheme_chars_def)
  with assms(4) have u: "urllib_unquote u = Return u"
    unfolding u_def by (intro urllib_unquote_absent) auto
  have p: "urllib_urlparse u
     = Return \<lparr>scheme = lower sch, netloc = loc, path = ''/'', params = [], query = [],
                fragment = []\<rparr>"
    unfolding u_def using assms
    by (intro urllib_urlparse_scheme_netloc) (auto simp: UNSAFE_URL_BYTES_TO_REMOVE_def)
  have q: "urllib_quote (urllib_urlunparse \<lparr>scheme = [], netloc = [], path = ''/'',
             params = [], query = [], fragment = []\<rparr>) = ''/''"
    by code_simp
  have "RobotFileParser_can_fetch self useragent u
    = Return (case first_entry (entries self) useragent of
                Some entry \<Rightarrow> Entry_allowance entry ''/''
              | None \<Rightarrow> (case default_entry self of
                           Some entry \<Rightarrow> Entry_allowance entry ''/''
                         | None \<Rightarrow> True))"
    using assms(6-8) by (simp add: RobotFileParser_can_fetch_def u p q split: option.splits)
  then show ?thesis unfolding u_def .
qed

subsection \<open>Plain host names\<close>

lemma is_hostname_chars:
  assumes "is_hostname h" "c \<notin> set hostname_chars"
  shows "c \<notin> set h"
  using assms by (auto simp: is_hostname_def list_all_iff)

lemma urlsplit_hostname:
  assumes h: "is_hostname h"
  shows "urlsplit h = Return ([], [], h, [], [])"
proof -
  note nc = is_hostname_chars[OF h]
  from h have ne: "h \<noteq> []" by (simp add: is_hostname_def)
  then have "hd h \<in> set h" by simp
  with h have "hd h \<in> set hostname_chars" by (auto simp: is_hostname_def list_all_iff)
  then have "\<not> WHATWG_C0_CONTROL_OR_SPACE (hd h)"
    by (auto simp: hostname_chars_def WHATWG_C0_CONTROL_OR_SPACE_def)
  with ne have 1: "lstrip WHATWG_C0_CONTROL_OR_SPACE h = h"
    by (rule lstrip_hd)
  have 2: "fold remove_char UNSAFE_URL_BYTES_TO_REMOVE h = h"
    using nc by (simp add: UNSAFE_URL_BYTES_TO_REMOVE_def remove_char_absent hostname_chars_def)
  have 3: "find h CHR '':'' = - 1"
    using nc by (intro find_absent) (simp add: hostname_chars_def)
  have s: "CHR ''/'' \<notin> set h" "CHR ''#'' \<notin> set h" "CHR ''?'' \<notin> set h"
    using nc by (simp_all add: hostname_chars_def)
  from s(1) have 4: "take 2 h \<noteq> ''//''"
    by (cases h) auto
  show ?thesis
    using s 4 by (simp add: urlsplit_def 1 2 3 Let_def)
qed

lemma normalize_to_origin_hostname:
  assumes h: "is_hostname h"
  shows "normalize_to_origin (cpython net) h = Return (''https://'' @ h)"
proof -
  from h have ne: "h \<noteq> []" by (simp add: is_hostname_def)
  have "CHR '';'' \<notin> set h"
    using is_hostname_chars[OF h] by (simp add: hostname_chars_def)
  then have p: "urllib_urlparse h
      = Return \<lparr>scheme = [], netloc = [], path = h, params = [], query = [], fragment = []\<rparr>"
    by (simp add: urllib_urlparse_def urlsplit_hostname[OF h])
  show ?thesis
    using ne by (simp add: normalize_to_origin_def cpython_def p urllib_urlunparse_def
        urlunsplit_def)
qed

lemma normalize_to_origin_http_url:
  assumes h: "is_hostname h" and sch: "sch = ''http'' \<or> sch = ''https''"
    and p: "p = [] \<or> hd p = CHR ''/''" "\<forall>c \<in> set ''?#;''. c \<notin> set p"
      "\<forall>c \<in> set UNSAFE_URL_BYTES_TO_REMOVE. c \<notin> set p"
  shows "normalize_to_origin (cpython net) (sch @ ''://'' @ h @ p) = Return (sch @ ''://'' @ h)"
proof -
  from h have ne: "h \<noteq> []" by (simp add: is_hostname_def)
  have hc: "\<forall>c \<in> set ''/?#[]''. c \<notin> set h"
    "\<forall>c \<in> set UNSAFE_URL_BYTES_TO_REMOVE. c \<notin> set h"
    using is_hostname_chars[OF h]
    by (auto simp: hostname_chars_def UNSAFE_URL_BYTES_TO_REMOVE_def)
  have s: "sch \<noteq> []" "isascii_alpha (hd sch)" "list_all (\<lambda>c. c \<in> set scheme_chars) sch"
    using sch by (auto simp: isascii_alpha_def scheme_chars_def)
  have l: "lower sch = sch"
    using sch by (auto simp: lower_def lower_char_def)
  define url where "url = sch @ ''://'' @ h @ p"
  have "urllib_urlparse url
     = Return \<lparr>scheme = lower sch, netloc = h, path = p, params = [], query = [],
                fragment = []\<rparr>"
    unfolding url_def using s hc p by (intro urllib_urlparse_scheme_netloc) auto
  then have "normalize_to_origin (cpython net) url = Return (sch @ ''://'' @ h)"
    using ne s(1) by (simp add: normalize_to_origin_def cpython_def l urllib_urlunparse_def
        urlunsplit_def)
  then show ?thesis by (simp add: url_def)
qed

lemma http_origin:
  assumes h: "is_hostname h" and sch: "sch = ''http'' \<or> sch = ''https''"
    and origin: "origin = sch @ ''://'' @ h"
  shows "rstrip (\<lambda>c. c = CHR ''/'') origin = origin"
    and "RobotFileParser_set_url self (origin @ ''/robots.txt'')
           = Return (self\<lparr>rp_url := origin @ ''/robots.txt'', rp_host := h,
                            rp_path := ''/robots.txt''\<rparr>)"
    and "\<not> disallow_all self \<Longrightarrow> \<not> allow_all self \<Longrightarrow> last_checked self \<Longrightarrow>
         RobotFileParser_can_fetch self useragent (origin @ ''/'')
           = Return (case first_entry (entries self) useragent of
                Some entry \<Rightarrow> Entry_allowance entry ''/''
              | None \<Rightarrow> (case default_entry self of
                           Some entry \<Rightarrow> Entry_allowance entry ''/''
                         | None \<Rightarrow> True))"
proof -
  have hc: "\<forall>c \<in> set ''/?#[]%''. c \<notin> set h"
    "\<forall>c \<in> set UNSAFE_URL_BYTES_TO_REMOVE. c \<notin> set h"
    using is_hostname_chars[OF h]
    by (auto simp: hostname_chars_def UNSAFE_URL_BYTES_TO_REMOVE_def)
  have s: "sch \<noteq> []" "isascii_alpha (hd sch)" "list_all (\<lambda>c. c \<in> set scheme_chars) sch"
    using sch by (auto simp: isascii_alpha_def scheme_chars_def)
  from h have "h \<noteq> []" by (simp add: is_hostname_def)
  then have "last h \<in> set h" by simp
  with hc(1) have "last h \<noteq> CHR ''/''" by auto
  with \<open>h \<noteq> []\<close> show "rstrip (\<lambda>c. c = CHR ''/'') origin = origin"
    unfolding origin by (intro rstrip_last) auto
  show "RobotFileParser_set_url self (origin @ ''/robots.txt'')
           = Return (self\<lparr>rp_url := origin @ ''/robots.txt'', rp_host := h,
                            rp_path := ''/robots.txt''\<rparr>)"
    using RobotFileParser_set_url_scheme_netloc[OF s, of h self] hc
    by (simp add: origin)
  show "RobotFileParser_can_fetch self useragent (origin @ ''/'')
           = Return (case first_entry (entries self) useragent of
                Some entry \<Rightarrow> Entry_allowance entry ''/''
              | None \<Rightarrow> (case default_entry self of
                           Some entry \<Rightarrow> Entry_allowance entry ''/''
                         | None \<Rightarrow> True))"
    if "\<not> disallow_all self" "\<not> allow_all self" "last_checked self"
    using can_fetch_root[OF s hc that, of useragent] by (simp add: origin)
qed

subsection \<open>The two files of the examples\<close>

lemma RobotFileParser_init_eq:
  "RobotFileParser_init
     = Return \<lparr>entries = [], sitemaps = [], default_entry = None, disallow_all = False,
                allow_all = False, rp_url = [], rp_host = [], rp_path = [],
                last_checked = False\<rparr>"
  by code_simp

lemma files_not_empty:
  "strip isspace ''User-agent: GPTBot\<newline>Disallow: /'' \<noteq> []"
  "strip isspace ''User-agent: *\<newline>Allow: /'' \<noteq> []"
  by code_simp+

lemma splitlines_gptbot_file: "splitlines ''User-agent: GPTBot\<newline>Disallow: /'' = [''User-agent: GPTBot'', ''Disallow: /'']"
  by code_simp

lemma splitlines_allow_all_file: "splitlines ''User-agent: *\<newline>Allow: /'' = [''User-agent: *'', ''Allow: /'']"
  by code_simp

lemma parse_gptbot_file:
  "RobotFileParser_parse self [''User-agent: GPTBot'', ''Disallow: /'']
     = (self\<lparr>entries := entries self @ [\<lparr>useragents = [''GPTBot''], rulelines = [RuleLine ''/'' False], delay = None, req_rate = None\<rparr>], last_checked := True\<rparr>, Return ())"
  by code_simp simp

lemma parse_allow_all_file:
  "RobotFileParser_parse self [''User-agent: *'', ''Allow: /'']
     = (self\<lparr>default_entry := (if default_entry self = None then Some \<lparr>useragents = [''*''], rulelines = [RuleLine ''/'' True], delay = None, req_rate = None\<rparr> else default_entry self), last_checked := True\<rparr>, Return ())"
  by code_simp simp

lemma entries_of_the_examples:
  "Entry_applies_to \<lparr>useragents = [''GPTBot''], rulelines = [RuleLine ''/'' False],
      delay = None, req_rate = None\<rparr> ''GPTBot''"
  "\<not> Entry_allowance \<lparr>useragents = [''GPTBot''], rulelines = [RuleLine ''/'' False],
      delay = None, req_rate = None\<rparr> ''/''"
  "Entry_allowance \<lparr>useragents = [''*''], rulelines = [RuleLine ''/'' True],
      delay = None, req_rate = None\<rparr> ''/''"
  by code_simp+

section \<open>The claims\<close>

text \<open>
  C1. In every response of the handler, \<open>blockedBots\<close> is the ordered subset of the
  requested bots whose result has \<open>canFetchRoot = false\<close>: it lists, in the order of the
  request, the user agents of the results that cannot fetch the root, and a user agent
  is in it if and only if one of its results cannot fetch the root.
\<close>

theorem blockedBots_exactly_the_refused:
  assumes "check_ai_bot_block py url bots includeRobotsTxt = Return resp"
  shows "blockedBots resp = map userAgent (filter (\<lambda>r. \<not> canFetchRoot r) (results resp))
     \<and> blockedBots resp
         = map fst (filter (\<lambda>(ua, r). \<not> canFetchRoot r) (zip bots (results resp)))
     \<and> subseq (blockedBots resp) bots
     \<and> (\<forall>ua. ua \<in> set (blockedBots resp)
           \<longleftrightarrow> (\<exists>r \<in> set (results resp). userAgent r = ua \<and> \<not> canFetchRoot r))"
proof -
  from check_ai_bot_block_Return[OF assms] obtain new where
    new: "results resp = new" "results resp \<noteq> [] \<longrightarrow> map userAgent new = bots"
      "blockedBots resp = map userAgent (filter (\<lambda>r. \<not> canFetchRoot r) new)"
    by fastforce
  have a: "blockedBots resp
             = map userAgent (filter (\<lambda>r. \<not> canFetchRoot r) (results resp))"
    using new by simp
  have b: "blockedBots resp
             = map fst (filter (\<lambda>(ua, r). \<not> canFetchRoot r) (zip bots (results resp)))"
  proof (cases "results resp = []")
    case True
    with a show ?thesis by simp
  next
    case False
    with new have "map userAgent (results resp) = bots" by simp
    from filter_zip_userAgent[OF this] a show ?thesis by simp
  qed
  have c: "subseq (blockedBots resp) bots"
  proof (cases "results resp = []")
    case True
    with a show ?thesis by simp
  next
    case False
    with new have m: "map userAgent (results resp) = bots" by simp
    have "subseq (map userAgent (filter (\<lambda>r. \<not> canFetchRoot r) (results resp)))
            (map userAgent (results resp))"
      by (rule subseq_map) simp
    with a m show ?thesis by simp
  qed
  have d: "\<forall>ua. ua \<in> set (blockedBots resp)
           \<longleftrightarrow> (\<exists>r \<in> set (results resp). userAgent r = ua \<and> \<not> canFetchRoot r)"
    unfolding a by auto
  from a b c d show ?thesis by blast
qed

theorem blockedBots_exactly_the_refused_witness:
  "check_ai_bot_block
     (cpython (serving ''https://example.com/robots.txt''
        \<lparr>status_code = 200, resp_text = ''User-agent: GPTBot\<newline>Disallow: /''\<rparr>))
     ''example.com'' [''GPTBot'', ''ClaudeBot''] True
   = Return \<lparr>robotsTxtFound = True, robotsUrl = ''https://example.com/robots.txt'',
       statusCode = Some 200, blockedBots = [''GPTBot''],
       results = [\<lparr>userAgent = ''GPTBot'', canFetchRoot = False, canFetchSitewide = False,
                    notes = None\<rparr>,
                  \<lparr>userAgent = ''ClaudeBot'', canFetchRoot = True, canFetchSitewide = True,
                    notes = None\<rparr>],
       robotsTxt = Some ''User-agent: GPTBot\<newline>Disallow: /'', warnings = []\<rparr>
   \<and> [''GPTBot'']
       = map userAgent (filter (\<lambda>r. \<not> canFetchRoot r)
           [\<lparr>userAgent = ''GPTBot'', canFetchRoot = False, canFetchSitewide = False,
              notes = None\<rparr>,
            \<lparr>userAgent = ''ClaudeBot'', canFetchRoot = True, canFetchSitewide = True,
              notes = None\<rparr>])
   \<and> subseq [''GPTBot''] [''GPTBot'', ''ClaudeBot'']"
  using blockedBots_exactly_the_refused[OF run_found] run_found by simp

text \<open>
  C2, as the code has it. When the response has \<open>robotsTxtFound = true\<close>, \<open>results\<close>
  has the length of the requested bots and its i-th entry carries the i-th requested
  user agent; when it has \<open>robotsTxtFound = false\<close> (the fetch failed, or the status was
  not 200, or the body was empty), \<open>results\<close> is empty whatever was requested.
\<close>

theorem results_follow_bots_when_found:
  assumes "check_ai_bot_block py url bots includeRobotsTxt = Return resp"
  shows "(robotsTxtFound resp \<longrightarrow>
            length (results resp) = length bots
            \<and> (\<forall>i < length bots. userAgent (results resp ! i) = bots ! i))
     \<and> (\<not> robotsTxtFound resp \<longrightarrow> results resp = [])"
proof -
  from check_ai_bot_block_Return[OF assms] have
    "(robotsTxtFound resp \<longrightarrow> map userAgent (results resp) = bots)
       \<and> (\<not> robotsTxtFound resp \<longrightarrow> results resp = [])"
    by fastforce
  moreover have "length (results resp) = length bots
      \<and> (\<forall>i < length bots. userAgent (results resp ! i) = bots ! i)"
    if "map userAgent (results resp) = bots"
    using that by (auto simp: list_eq_iff_nth_eq)
  ultimately show ?thesis by blast
qed

theorem results_follow_bots_when_found_witness:
  "check_ai_bot_block
     (cpython (serving ''https://example.com/robots.txt''
        \<lparr>status_code = 200, resp_text = ''User-agent: GPTBot\<newline>Disallow: /''\<rparr>))
     ''example.com'' [''GPTBot'', ''ClaudeBot''] True
   = Return \<lparr>robotsTxtFound = True, robotsUrl = ''https://example.com/robots.txt'',
       statusCode = Some 200, blockedBots = [''GPTBot''],
       results = [\<lparr>userAgent = ''GPTBot'', canFetchRoot = False, canFetchSitewide = False,
                    notes = None\<rparr>,
                  \<lparr>userAgent = ''ClaudeBot'', canFetchRoot = True, canFetchSitewide = True,
                    notes = None\<rparr>],
       robotsTxt = Some ''User-agent: GPTBot\<newline>Disallow: /'', warnings = []\<rparr>
   \<and> length [\<lparr>userAgent = ''GPTBot'', canFetchRoot = False, canFetchSitewide = False,
                 notes = None\<rparr>,
               \<lparr>userAgent = ''ClaudeBot'', canFetchRoot = True, canFetchSitewide = True,
                 notes = None\<rparr>]
       = length [''GPTBot'', ''ClaudeBot'']"
  using results_follow_bots_when_found[OF run_found] run_found by simp

text \<open>
  C2, as the spec states it, fails: the site answers 404, one bot was requested, and
  \<open>results\<close> is empty.
\<close>

theorem results_length_counterexample:
  "check_ai_bot_block
     (cpython (serving ''https://example.com/robots.txt''
        \<lparr>status_code = 404, resp_text = ''Not Found''\<rparr>))
     ''example.com'' [''GPTBot''] True
   = Return \<lparr>robotsTxtFound = False, robotsUrl = ''https://example.com/robots.txt'',
       statusCode = Some 404, blockedBots = [], results = [], robotsTxt = None,
       warnings = []\<rparr>
   \<and> length (results \<lparr>robotsTxtFound = False, robotsUrl = ''https://example.com/robots.txt'',
       statusCode = Some 404, blockedBots = [], results = [], robotsTxt = None,
       warnings = []\<rparr>) \<noteq> length [''GPTBot'']"
  using run_not_found by simp

text \<open>
  C3. The docstring of \<open>normalize_to_origin\<close> promises the scheme and the domain of any
  URL, and the spec an origin without path. For a host without scheme that is followed
  by a path, \<open>urlparse\<close> finds no netloc, the whole input is taken as the host, and the
  path stays in the result.
\<close>

theorem normalize_to_origin_keeps_path:
  "normalize_to_origin (cpython net) ''example.com/path'' = Return ''https://example.com/path''"
  by code_simp

text \<open>
  C4. When the fetch of robots.txt raises a \<open>requests.RequestException\<close> (a failed name
  lookup, a refused connection, a TLS error, a timeout), the handler returns
  \<open>robotsTxtFound = false\<close>, no status code, no blocked bots, no results, and exactly one
  warning, which names the class of the exception.
\<close>

theorem fetch_error_response:
  assumes "normalize_to_origin py url = Return n"
    and "requests_get py (rstrip (\<lambda>c. c = CHR ''/'') n @ ''/robots.txt'') = Raise e"
    and "isinstance e ''RequestException''"
  shows "check_ai_bot_block py url bots includeRobotsTxt
     = Return \<lparr>robotsTxtFound = False,
                robotsUrl = rstrip (\<lambda>c. c = CHR ''/'') n @ ''/robots.txt'',
                statusCode = None, blockedBots = [], results = [], robotsTxt = None,
                warnings = [''Fetch error: '' @ class_name e]\<rparr>"
  using assms by (simp add: check_ai_bot_block_def Let_def)

theorem fetch_error_response_witness:
  "normalize_to_origin (cpython (failing ConnectTimeout)) ''example.com''
     = Return ''https://example.com''
   \<and> requests_get (cpython (failing ConnectTimeout)) ''https://example.com/robots.txt''
     = Raise ConnectTimeout
   \<and> isinstance ConnectTimeout ''RequestException''
   \<and> check_ai_bot_block (cpython (failing ConnectTimeout)) ''example.com'' [''GPTBot''] True
     = Return \<lparr>robotsTxtFound = False, robotsUrl = ''https://example.com/robots.txt'',
                statusCode = None, blockedBots = [], results = [], robotsTxt = None,
                warnings = [''Fetch error: ConnectTimeout'']\<rparr>"
proof -
  have n: "normalize_to_origin (cpython (failing ConnectTimeout)) ''example.com''
             = Return ''https://example.com''"
    by (rule normalize_example_com)
  have g: "requests_get (cpython (failing ConnectTimeout))
             (rstrip (\<lambda>c. c = CHR ''/'') ''https://example.com'' @ ''/robots.txt'')
             = Raise ConnectTimeout"
    by (simp add: cpython_def failing_def)
  have i: "isinstance ConnectTimeout ''RequestException''"
    by (simp add: isinstance_def ConnectTimeout_def)
  from fetch_error_response[OF n g i, of "[''GPTBot'']" True] n i show ?thesis
    by (simp add: rstrip_def cpython_def failing_def ConnectTimeout_def)
qed

text \<open>
  C5. When the fetch of robots.txt returns with a status other than 200, or with a body
  that is empty once white space is stripped, the handler returns
  \<open>robotsTxtFound = false\<close> with the status code it received, no results, no blocked
  bots and no warning; a 404 gives \<open>statusCode = 404\<close>.
\<close>

theorem not_found_or_empty_response:
  assumes "normalize_to_origin py url = Return n"
    and "requests_get py (rstrip (\<lambda>c. c = CHR ''/'') n @ ''/robots.txt'') = Return r"
    and "status_code r \<noteq> 200 \<or> strip isspace (resp_text r) = []"
  shows "check_ai_bot_block py url bots includeRobotsTxt
     = Return \<lparr>robotsTxtFound = False,
                robotsUrl = rstrip (\<lambda>c. c = CHR ''/'') n @ ''/robots.txt'',
                statusCode = Some (status_code r), blockedBots = [], results = [],
                robotsTxt = None, warnings = []\<rparr>"
  using assms by (auto simp: check_ai_bot_block_def Let_def)

theorem not_found_or_empty_response_witness:
  "normalize_to_origin
     (cpython (serving ''https://example.com/robots.txt''
        \<lparr>status_code = 404, resp_text = ''Not Found''\<rparr>)) ''example.com''
     = Return ''https://example.com''
   \<and> check_ai_bot_block
       (cpython (serving ''https://example.com/robots.txt''
          \<lparr>status_code = 404, resp_text = ''Not Found''\<rparr>))
       ''example.com'' [''GPTBot''] True
     = Return \<lparr>robotsTxtFound = False, robotsUrl = ''https://example.com/robots.txt'',
                statusCode = Some 404, blockedBots = [], results = [], robotsTxt = None,
                warnings = []\<rparr>
   \<and> strip isspace '' \<newline>'' = []
   \<and> check_ai_bot_block
       (cpython (serving ''https://example.com/robots.txt''
          \<lparr>status_code = 200, resp_text = '' \<newline>''\<rparr>))
       ''example.com'' [''GPTBot''] True
     = Return \<lparr>robotsTxtFound = False, robotsUrl = ''https://example.com/robots.txt'',
                statusCode = Some 200, blockedBots = [], results = [], robotsTxt = None,
                warnings = []\<rparr>"
proof -
  let ?r = "\<lparr>status_code = 404, resp_text = ''Not Found''\<rparr>"
  let ?e = "\<lparr>status_code = 200, resp_text = '' \<newline>''\<rparr>"
  have n: "normalize_to_origin (cpython (serving ''https://example.com/robots.txt'' r))
             ''example.com'' = Return ''https://example.com''" for r
    by (rule normalize_example_com)
  have g: "requests_get (cpython (serving ''https://example.com/robots.txt'' r))
             (rstrip (\<lambda>c. c = CHR ''/'') ''https://example.com'' @ ''/robots.txt'')
             = Return r" for r
    by (simp add: cpython_def serving_def rstrip_def)
  have s: "status_code ?r \<noteq> 200 \<or> strip isspace (resp_text ?r) = []"
    by simp
  have w: "strip isspace '' \<newline>'' = []"
    by code_simp
  then have t: "status_code ?e \<noteq> 200 \<or> strip isspace (resp_text ?e) = []"
    by simp
  from not_found_or_empty_response[OF n g s, of "[''GPTBot'']" True]
       not_found_or_empty_response[OF n g t, of "[''GPTBot'']" True] n w
  show ?thesis
    by (simp add: rstrip_def)
qed

text \<open>
  C6. The two examples of the spec, for every request whose URL normalizes to
  \<open>http://\<close> or \<open>https://\<close> and a plain host name (as a bare host name and a URL of
  that host do). When the fetch returns status 200 with the body
  \<open>User-agent: GPTBot / Disallow: /\<close> and GPTBot is asked for, the file is found,
  GPTBot is blocked and the first result has \<open>canFetchRoot = false\<close>. When it returns
  the body \<open>User-agent: * / Allow: /\<close> and GPTBot and ClaudeBot are asked for, both
  results have \<open>canFetchRoot = true\<close> and no bot is blocked.
\<close>

theorem spec_examples_of_robots_txt:
  assumes h: "is_hostname h" and sch: "sch = ''http'' \<or> sch = ''https''"
    and n: "normalize_to_origin (cpython net) url = Return (sch @ ''://'' @ h)"
  shows "(net (sch @ ''://'' @ h @ ''/robots.txt'')
            = Return \<lparr>status_code = 200, resp_text = ''User-agent: GPTBot\<newline>Disallow: /''\<rparr>
          \<longrightarrow> check_ai_bot_block (cpython net) url [''GPTBot''] includeRobotsTxt
            = Return \<lparr>robotsTxtFound = True,
                 robotsUrl = sch @ ''://'' @ h @ ''/robots.txt'',
                 statusCode = Some 200, blockedBots = [''GPTBot''],
                 results = [\<lparr>userAgent = ''GPTBot'', canFetchRoot = False,
                              canFetchSitewide = False, notes = None\<rparr>],
                 robotsTxt = (if includeRobotsTxt
                              then Some ''User-agent: GPTBot\<newline>Disallow: /'' else None),
                 warnings = []\<rparr>)
     \<and> (net (sch @ ''://'' @ h @ ''/robots.txt'')
            = Return \<lparr>status_code = 200, resp_text = ''User-agent: *\<newline>Allow: /''\<rparr>
          \<longrightarrow> check_ai_bot_block (cpython net) url [''GPTBot'', ''ClaudeBot''] includeRobotsTxt
            = Return \<lparr>robotsTxtFound = True,
                 robotsUrl = sch @ ''://'' @ h @ ''/robots.txt'',
                 statusCode = Some 200, blockedBots = [],
                 results = [\<lparr>userAgent = ''GPTBot'', canFetchRoot = True,
                              canFetchSitewide = True, notes = None\<rparr>,
                            \<lparr>userAgent = ''ClaudeBot'', canFetchRoot = True,
                              canFetchSitewide = True, notes = None\<rparr>],
                 robotsTxt = (if includeRobotsTxt
                              then Some ''User-agent: *\<newline>Allow: /'' else None),
                 warnings = []\<rparr>)"
proof -
  define origin where "origin = sch @ ''://'' @ h"
  note o = http_origin[OF h sch origin_def]
  have n': "normalize_to_origin (cpython net) url = Return origin"
    using n by (simp add: origin_def)
  have lib: "requests_get (cpython net) = net"
    "RobotFileParser (cpython net) = RobotFileParser_init"
    "set_url (cpython net) = RobotFileParser_set_url"
    "parse (cpython net) = RobotFileParser_parse"
    "can_fetch (cpython net) = RobotFileParser_can_fetch"
    by (simp_all add: cpython_def)
  have 1: "check_ai_bot_block (cpython net) url [''GPTBot''] includeRobotsTxt
            = Return \<lparr>robotsTxtFound = True, robotsUrl = origin @ ''/robots.txt'',
                 statusCode = Some 200, blockedBots = [''GPTBot''],
                 results = [\<lparr>userAgent = ''GPTBot'', canFetchRoot = False,
                              canFetchSitewide = False, notes = None\<rparr>],
                 robotsTxt = (if includeRobotsTxt
                              then Some ''User-agent: GPTBot\<newline>Disallow: /'' else None),
                 warnings = []\<rparr>"
    if "net (origin @ ''/robots.txt'')
          = Return \<lparr>status_code = 200, resp_text = ''User-agent: GPTBot\<newline>Disallow: /''\<rparr>"
    by (simp add: check_ai_bot_block_def n' lib that o files_not_empty
          RobotFileParser_init_eq splitlines_gptbot_file parse_gptbot_file entries_of_the_examples Let_def)
  have 2: "check_ai_bot_block (cpython net) url [''GPTBot'', ''ClaudeBot''] includeRobotsTxt
            = Return \<lparr>robotsTxtFound = True, robotsUrl = origin @ ''/robots.txt'',
                 statusCode = Some 200, blockedBots = [],
                 results = [\<lparr>userAgent = ''GPTBot'', canFetchRoot = True,
                              canFetchSitewide = True, notes = None\<rparr>,
                            \<lparr>userAgent = ''ClaudeBot'', canFetchRoot = True,
                              canFetchSitewide = True, notes = None\<rparr>],
                 robotsTxt = (if includeRobotsTxt
                              then Some ''User-agent: *\<newline>Allow: /'' else None),
                 warnings = []\<rparr>"
    if "net (origin @ ''/robots.txt'')
          = Return \<lparr>status_code = 200, resp_text = ''User-agent: *\<newline>Allow: /''\<rparr>"
    by (simp add: check_ai_bot_block_def n' lib that o files_not_empty
          RobotFileParser_init_eq splitlines_allow_all_file parse_allow_all_file entries_of_the_examples Let_def)
  from 1 2 show ?thesis
    by (simp add: origin_def)
qed

theorem spec_examples_of_robots_txt_witness:
  "is_hostname ''example.com''
   \<and> normalize_to_origin
       (cpython (serving ''https://example.com/robots.txt''
          \<lparr>status_code = 200, resp_text = ''User-agent: GPTBot\<newline>Disallow: /''\<rparr>))
       ''example.com'' = Return ''https://example.com''
   \<and> check_ai_bot_block
       (cpython (serving ''https://example.com/robots.txt''
          \<lparr>status_code = 200, resp_text = ''User-agent: GPTBot\<newline>Disallow: /''\<rparr>))
       ''example.com'' [''GPTBot''] False
     = Return \<lparr>robotsTxtFound = True, robotsUrl = ''https://example.com/robots.txt'',
         statusCode = Some 200, blockedBots = [''GPTBot''],
         results = [\<lparr>userAgent = ''GPTBot'', canFetchRoot = False, canFetchSitewide = False,
                      notes = None\<rparr>],
         robotsTxt = None, warnings = []\<rparr>
   \<and> check_ai_bot_block
       (cpython (serving ''https://example.com/robots.txt''
          \<lparr>status_code = 200, resp_text = ''User-agent: *\<newline>Allow: /''\<rparr>))
       ''example.com'' [''GPTBot'', ''ClaudeBot''] False
     = Return \<lparr>robotsTxtFound = True, robotsUrl = ''https://example.com/robots.txt'',
         statusCode = Some 200, blockedBots = [],
         results = [\<lparr>userAgent = ''GPTBot'', canFetchRoot = True, canFetchSitewide = True,
                      notes = None\<rparr>,
                    \<lparr>userAgent = ''ClaudeBot'', canFetchRoot = True, canFetchSitewide = True,
                      notes = None\<rparr>],
         robotsTxt = None, warnings = []\<rparr>"
proof -
  have h: "is_hostname ''example.com''"
    by code_simp
  have s: "''https'' = ''http'' \<or> ''https'' = ''https''"
    by simp
  have n: "normalize_to_origin (cpython net) ''example.com''
             = Return (''https'' @ ''://'' @ ''example.com'')" for net
    using normalize_example_com[of net] by simp
  from spec_examples_of_robots_txt[OF h s n, of _ False]
       spec_examples_of_robots_txt[OF h s n, of _ False] h n
  show ?thesis
    by (simp add: serving_def)
qed

text \<open>
  C7. In every result of every response, \<open>canFetchSitewide\<close> equals \<open>canFetchRoot\<close>.
\<close>

theorem canFetchSitewide_is_canFetchRoot:
  assumes "check_ai_bot_block py url bots includeRobotsTxt = Return resp"
  shows "\<forall>r \<in> set (results resp). canFetchSitewide r = canFetchRoot r"
  using check_ai_bot_block_Return[OF assms] by fastforce

theorem canFetchSitewide_is_canFetchRoot_witness:
  "check_ai_bot_block
     (cpython (serving ''https://example.com/robots.txt''
        \<lparr>status_code = 200, resp_text = ''User-agent: GPTBot\<newline>Disallow: /''\<rparr>))
     ''example.com'' [''GPTBot'', ''ClaudeBot''] True
   = Return \<lparr>robotsTxtFound = True, robotsUrl = ''https://example.com/robots.txt'',
       statusCode = Some 200, blockedBots = [''GPTBot''],
       results = [\<lparr>userAgent = ''GPTBot'', canFetchRoot = False, canFetchSitewide = False,
                    notes = None\<rparr>,
                  \<lparr>userAgent = ''ClaudeBot'', canFetchRoot = True, canFetchSitewide = True,
                    notes = None\<rparr>],
       robotsTxt = Some ''User-agent: GPTBot\<newline>Disallow: /'', warnings = []\<rparr>
   \<and> list_all (\<lambda>r. canFetchSitewide r = canFetchRoot r)
       [\<lparr>userAgent = ''GPTBot'', canFetchRoot = False, canFetchSitewide = False,
          notes = None\<rparr>,
        \<lparr>userAgent = ''ClaudeBot'', canFetchRoot = True, canFetchSitewide = True,
          notes = None\<rparr>]"
  using canFetchSitewide_is_canFetchRoot[OF run_found] run_found by simp

text \<open>
  C8. The response carries the text of robots.txt as it was fetched exactly when the
  file was found and \<open>includeRobotsTxt\<close> is true, which it is when the request leaves it
  out; in every other case \<open>robotsTxt\<close> is null.
\<close>

theorem robotsTxt_present_iff_found_and_requested:
  assumes "check_endpoint py url bots includeRobotsTxt = Return resp"
  shows "(robotsTxtFound resp \<and> includeRobotsTxt \<noteq> Some False \<longrightarrow>
            (\<exists>r. requests_get py (robotsUrl resp) = Return r
                 \<and> robotsTxt resp = Some (resp_text r)))
     \<and> (\<not> (robotsTxtFound resp \<and> includeRobotsTxt \<noteq> Some False) \<longrightarrow>
            robotsTxt resp = None)"
proof -
  let ?inc = "case includeRobotsTxt of None \<Rightarrow> True | Some b \<Rightarrow> b"
  have inc: "?inc \<longleftrightarrow> includeRobotsTxt \<noteq> Some False"
    by (cases includeRobotsTxt) auto
  from assms have
    "check_ai_bot_block py url (case bots of None \<Rightarrow> DEFAULT_AI_BOTS | Some bs \<Rightarrow> bs) ?inc
       = Return resp"
    by (simp add: check_endpoint_def)
  from check_ai_bot_block_Return[OF this] inc show ?thesis
    by fastforce
qed

theorem robotsTxt_present_iff_found_and_requested_witness:
  "check_endpoint
     (cpython (serving ''https://example.com/robots.txt''
        \<lparr>status_code = 200, resp_text = ''User-agent: GPTBot\<newline>Disallow: /''\<rparr>))
     ''example.com'' (Some [''GPTBot'', ''ClaudeBot'']) None
   = Return \<lparr>robotsTxtFound = True, robotsUrl = ''https://example.com/robots.txt'',
       statusCode = Some 200, blockedBots = [''GPTBot''],
       results = [\<lparr>userAgent = ''GPTBot'', canFetchRoot = False, canFetchSitewide = False,
                    notes = None\<rparr>,
                  \<lparr>userAgent = ''ClaudeBot'', canFetchRoot = True, canFetchSitewide = True,
                    notes = None\<rparr>],
       robotsTxt = Some ''User-agent: GPTBot\<newline>Disallow: /'', warnings = []\<rparr>
   \<and> requests_get
       (cpython (serving ''https://example.com/robots.txt''
          \<lparr>status_code = 200, resp_text = ''User-agent: GPTBot\<newline>Disallow: /''\<rparr>))
       ''https://example.com/robots.txt''
     = Return \<lparr>status_code = 200, resp_text = ''User-agent: GPTBot\<newline>Disallow: /''\<rparr>"
proof -
  let ?py = "cpython (serving ''https://example.com/robots.txt''
        \<lparr>status_code = 200, resp_text = ''User-agent: GPTBot\<newline>Disallow: /''\<rparr>)"
  have h: "check_endpoint ?py ''example.com'' (Some [''GPTBot'', ''ClaudeBot'']) None
    = Return \<lparr>robotsTxtFound = True, robotsUrl = ''https://example.com/robots.txt'',
       statusCode = Some 200, blockedBots = [''GPTBot''],
       results = [\<lparr>userAgent = ''GPTBot'', canFetchRoot = False, canFetchSitewide = False,
                    notes = None\<rparr>,
                  \<lparr>userAgent = ''ClaudeBot'', canFetchRoot = True, canFetchSitewide = True,
                    notes = None\<rparr>],
       robotsTxt = Some ''User-agent: GPTBot\<newline>Disallow: /'', warnings = []\<rparr>"
    using run_found by (simp add: check_endpoint_def)
  from robotsTxt_present_iff_found_and_requested[OF h] h show ?thesis
    by (simp add: cpython_def serving_def)
qed

text \<open>
  C9. A response with \<open>robotsTxtFound = true\<close> has the status code 200, and the body
  that was fetched is not empty once white space is stripped.
\<close>

theorem found_means_200_and_body:
  assumes "check_ai_bot_block py url bots includeRobotsTxt = Return resp"
    and "robotsTxtFound resp"
  shows "statusCode resp = Some 200
     \<and> (\<exists>r. requests_get py (robotsUrl resp) = Return r \<and> status_code r = 200
             \<and> strip isspace (resp_text r) \<noteq> [])"
  using check_ai_bot_block_Return[OF assms(1)] assms(2) by fastforce

theorem found_means_200_and_body_witness:
  "check_ai_bot_block
     (cpython (serving ''https://example.com/robots.txt''
        \<lparr>status_code = 200, resp_text = ''User-agent: GPTBot\<newline>Disallow: /''\<rparr>))
     ''example.com'' [''GPTBot'', ''ClaudeBot''] True
   = Return \<lparr>robotsTxtFound = True, robotsUrl = ''https://example.com/robots.txt'',
       statusCode = Some 200, blockedBots = [''GPTBot''],
       results = [\<lparr>userAgent = ''GPTBot'', canFetchRoot = False, canFetchSitewide = False,
                    notes = None\<rparr>,
                  \<lparr>userAgent = ''ClaudeBot'', canFetchRoot = True, canFetchSitewide = True,
                    notes = None\<rparr>],
       robotsTxt = Some ''User-agent: GPTBot\<newline>Disallow: /'', warnings = []\<rparr>
   \<and> strip isspace ''User-agent: GPTBot\<newline>Disallow: /'' \<noteq> []"
proof -
  let ?py = "cpython (serving ''https://example.com/robots.txt''
        \<lparr>status_code = 200, resp_text = ''User-agent: GPTBot\<newline>Disallow: /''\<rparr>)"
  let ?resp = "\<lparr>robotsTxtFound = True, robotsUrl = ''https://example.com/robots.txt'',
       statusCode = Some 200, blockedBots = [''GPTBot''],
       results = [\<lparr>userAgent = ''GPTBot'', canFetchRoot = False, canFetchSitewide = False,
                    notes = None\<rparr>,
                  \<lparr>userAgent = ''ClaudeBot'', canFetchRoot = True, canFetchSitewide = True,
                    notes = None\<rparr>],
       robotsTxt = Some ''User-agent: GPTBot\<newline>Disallow: /'', warnings = []\<rparr>"
  have f: "robotsTxtFound ?resp" by simp
  from found_means_200_and_body[OF run_found f] run_found show ?thesis
    by (auto simp: cpython_def serving_def)
qed

text \<open>
  C10. In every response, whichever way the handler took, \<open>robotsUrl\<close> is the
  normalized origin of the request URL without its trailing slashes, followed by
  \<open>/robots.txt\<close>.
\<close>

theorem robotsUrl_is_origin_robots_txt:
  assumes "check_ai_bot_block py url bots includeRobotsTxt = Return resp"
  shows "\<exists>n. normalize_to_origin py url = Return n
     \<and> robotsUrl resp = rstrip (\<lambda>c. c = CHR ''/'') n @ ''/robots.txt''"
  using check_ai_bot_block_Return[OF assms] by fastforce

theorem robotsUrl_is_origin_robots_txt_witness:
  "check_ai_bot_block (cpython (failing ConnectTimeout)) ''example.com'' [''GPTBot''] True
     = Return \<lparr>robotsTxtFound = False, robotsUrl = ''https://example.com/robots.txt'',
         statusCode = None, blockedBots = [], results = [], robotsTxt = None,
         warnings = [''Fetch error: ConnectTimeout'']\<rparr>
   \<and> normalize_to_origin (cpython (failing ConnectTimeout)) ''example.com''
     = Return ''https://example.com''
   \<and> ''https://example.com/robots.txt''
     = rstrip (\<lambda>c. c = CHR ''/'') ''https://example.com'' @ ''/robots.txt''"
  using robotsUrl_is_origin_robots_txt[OF run_fetch_error] run_fetch_error
    normalize_example_com[of "failing ConnectTimeout"]
  by (simp add: rstrip_def)

end
